theory Spec2Isabelle
  imports Main "HOL-Library.AList"
begin

section \<open>Strings\<close>

text \<open>
  \<open>String.prototype.toLowerCase\<close> on the ASCII letters (the engine's tables and messages
  are ASCII).
\<close>

definition toLowerChar :: "char \<Rightarrow> char" where
  "toLowerChar c =
     (case map_of (zip ''ABCDEFGHIJKLMNOPQRSTUVWXYZ'' ''abcdefghijklmnopqrstuvwxyz'') c of
        Some d \<Rightarrow> d
      | None \<Rightarrow> c)"

definition toLowerCase :: "string \<Rightarrow> string" where
  "toLowerCase s = map toLowerChar s"

text \<open>The characters that \<open>\s\<close> and \<open>trim\<close> treat as white space, among the bytes.\<close>

definition isSpace :: "char \<Rightarrow> bool" where
  "isSpace c = (c \<in> set [CHR 0x09, CHR 0x0A, CHR 0x0B, CHR 0x0C, CHR 0x0D, CHR 0x20, CHR 0xA0])"

definition trim :: "string \<Rightarrow> string" where
  "trim s = rev (dropWhile isSpace (rev (dropWhile isSpace s)))"

text \<open>
  \<open>s.split(/\s+/)\<close>: the pieces between maximal runs of white space. A leading or
  trailing run leaves an empty first or last piece, and the empty string splits into one
  empty piece.
\<close>

lemma dropWhile_run_shorter:
  assumes "dropWhile (\<lambda>c. \<not> P c) s \<noteq> []"
  shows "length (dropWhile P (dropWhile (\<lambda>c. \<not> P c) s)) < length s"
proof -
  define r where "r = dropWhile (\<lambda>c. \<not> P c) s"
  from assms have ne: "r \<noteq> []" by (simp add: r_def)
  then have "P (hd r)" unfolding r_def using hd_dropWhile[of "\<lambda>c. \<not> P c" s] by simp
  with ne have "dropWhile P r = dropWhile P (tl r)" by (cases r) auto
  then have "length (dropWhile P r) \<le> length (tl r)"
    using length_dropWhile_le[of P "tl r"] by simp
  also have "\<dots> < length r" using ne by (cases r) auto
  also have "\<dots> \<le> length s" by (simp add: r_def length_dropWhile_le)
  finally show ?thesis by (simp add: r_def)
qed

function splitWs :: "string \<Rightarrow> string list" where
  "splitWs s =
     (let w = takeWhile (\<lambda>c. \<not> isSpace c) s; r = dropWhile (\<lambda>c. \<not> isSpace c) s in
      if r = [] then [w] else w # splitWs (dropWhile isSpace r))"
  by pat_completeness auto
termination
  by (relation "measure length") (auto intro: dropWhile_run_shorter)

text \<open>\<open>s.startsWith(p)\<close> and \<open>s.includes(sub)\<close>.\<close>

fun startsWith :: "string \<Rightarrow> string \<Rightarrow> bool" where
  "startsWith s [] = True"
| "startsWith [] (p # ps) = False"
| "startsWith (c # s) (p # ps) = (c = p \<and> startsWith s ps)"

fun js_includes :: "string \<Rightarrow> string \<Rightarrow> bool" where
  "js_includes [] sub = (sub = [])"
| "js_includes (c # s) sub = (startsWith (c # s) sub \<or> js_includes s sub)"

text \<open>\<open>xs.join(sep)\<close>.\<close>

fun join :: "string \<Rightarrow> string list \<Rightarrow> string" where
  "join sep [] = []"
| "join sep [x] = x"
| "join sep (x # y # ys) = x @ sep @ join sep (y # ys)"

text \<open>An integer inside a template literal: its decimal digits, with a sign when negative.\<close>

function natToString :: "nat \<Rightarrow> string" where
  "natToString n =
     (if n < 10 then [''0123456789'' ! n]
      else natToString (n div 10) @ [''0123456789'' ! (n mod 10)])"
  by pat_completeness auto
termination
  by (relation "measure id") auto

definition numToString :: "int \<Rightarrow> string" where
  "numToString i = (if i < 0 then ''-'' @ natToString (nat (- i)) else natToString (nat i))"

definition newline :: string where
  "newline = [CHR 0x0A]"

section \<open>JavaScript values\<close>

text \<open>
  The engine is written in JavaScript. Numbers that count things (quantities, scores,
  turn counters) are modelled as \<open>int\<close>; a sum or difference of stack quantities is
  rounded as the double-precision arithmetic of the language rounds it (\<open>roundDouble\<close>
  below). Characters are modelled as bytes, so strings are \<open>string\<close>. A value that is either a string or \<open>null\<close>/\<open>undefined\<close> is a
  \<open>string option\<close>. A plain object used as a dictionary is an association list in
  insertion order: a read is \<open>map_of\<close>, an assignment is \<open>AList.update\<close> (an existing key
  keeps its place, a new key goes last), \<open>Object.keys\<close> is \<open>map fst\<close>.

  Three things are left out of the model. Keys are taken not to be names that every
  object inherits (such as \<open>constructor\<close>) and not to look like array indices, which an
  object enumerates before its other keys. Numeric tokens are integers: a token such as
  \<open>1.5\<close> or \<open>Infinity\<close> is not a quantity here. A stack object belongs to the list of
  one place only, so updating a stack in place changes that place and no other.
\<close>

datatype jsval = JUndefined | JNull | JBool bool | JNum int | JStr string

fun truthy :: "jsval \<Rightarrow> bool" where
  "truthy JUndefined = False"
| "truthy JNull = False"
| "truthy (JBool b) = b"
| "truthy (JNum n) = (n \<noteq> 0)"
| "truthy (JStr s) = (s \<noteq> [])"

text \<open>Truthiness of a string-or-null: \<open>null\<close> and the empty string are falsy.\<close>

definition truthyS :: "string option \<Rightarrow> bool" where
  "truthyS x = (case x of None \<Rightarrow> False | Some s \<Rightarrow> s \<noteq> [])"

text \<open>\<open>a || b\<close> on strings-or-null.\<close>

definition js_or :: "string option \<Rightarrow> string option \<Rightarrow> string option" where
  "js_or a b = (if truthyS a then a else b)"

text \<open>A string-or-null inside a template literal or used as a property key.\<close>

definition tmpl :: "string option \<Rightarrow> string" where
  "tmpl x = (case x of None \<Rightarrow> ''null'' | Some s \<Rightarrow> s)"

subsection \<open>Numbers\<close>

text \<open>
  A JavaScript number is a double: integers of magnitude up to \<open>2^53\<close> are exact, and
  the result of \<open>+\<close> or \<open>-\<close> is the exact result rounded to 53 significant bits, a tie
  going to the even neighbour. \<open>ulp a\<close> is the distance between the doubles around a
  non-negative integer \<open>a\<close>: 1 below \<open>2^53 = 9007199254740992\<close>, 2 from there to
  \<open>2^54\<close>, and so on. Results beyond the largest finite double (about
  \<open>1.8e308\<close>), where the language gives \<open>Infinity\<close>, are not modelled.
\<close>

function ulp :: "int \<Rightarrow> int" where
  "ulp a = (if a < 9007199254740992 then 1 else 2 * ulp (a div 2))"
  by pat_completeness auto
termination
  by (relation "measure nat") auto

declare ulp.simps [simp del]

definition roundDouble :: "int \<Rightarrow> int" where
  "roundDouble n =
     (let a = \<bar>n\<bar>;
          u = ulp a;
          m = a div u;
          r = a mod u
      in sgn n * (if 2 * r < u \<or> (2 * r = u \<and> even m) then m * u else (m + 1) * u))"

text \<open>\<open>Number.isSafeInteger\<close>, on integers.\<close>

definition isSafeInteger :: "int \<Rightarrow> bool" where
  "isSafeInteger n = (\<bar>n\<bar> \<le> 9007199254740991)"

section \<open>The state store (models/game-state.js)\<close>

record stack =
  itemId :: string
  quantity :: int

record containerState =
  isLocked :: bool
  isOpen :: bool

record player =
  currentLocation :: string
  score :: int
  turnCount :: int
  visitedLocations :: "string list"
  playerFlags :: "(string \<times> jsval) list"

text \<open>
  An exit state is the one-field object \<open>{isLocked}\<close>; \<open>exitStates\<close> maps the exit key
  to that boolean.
\<close>

record GameState =
  gameId :: string
  players :: "(string \<times> player) list"
  activePlayerId :: "string option"
  uniqueItemLocations :: "(string \<times> string option) list"
  genericItemStacks :: "(string \<times> stack list) list"
  npcLocations :: "(string \<times> string) list"
  containerStates :: "(string \<times> containerState) list"
  exitStates :: "(string \<times> bool) list"
  flags :: "(string \<times> jsval) list"
  questStates :: "(string \<times> string) list"

subsection \<open>Players\<close>

definition getActivePlayer :: "GameState \<Rightarrow> player option" where
  "getActivePlayer s = map_of (players s) (tmpl (activePlayerId s))"

definition getCurrentLocation :: "GameState \<Rightarrow> string option" where
  "getCurrentLocation s =
     (case getActivePlayer s of None \<Rightarrow> None | Some p \<Rightarrow> Some (currentLocation p))"

text \<open>\<open>`inventory-${pid}`\<close> with \<open>pid = playerId || this.activePlayerId\<close>.\<close>

definition inventoryKey :: "GameState \<Rightarrow> string option \<Rightarrow> string" where
  "inventoryKey s playerId = ''inventory-'' @ tmpl (js_or playerId (activePlayerId s))"

text \<open>
  The first lines of every generic-item method: the place \<open>'inventory'\<close> stands for the
  player-scoped inventory key.
\<close>

definition resolveContainer :: "GameState \<Rightarrow> string \<Rightarrow> string option \<Rightarrow> string" where
  "resolveContainer s containerId playerId =
     (if containerId = ''inventory'' then inventoryKey s playerId else containerId)"

definition movePlayer :: "GameState \<Rightarrow> string \<Rightarrow> string option \<Rightarrow> GameState" where
  "movePlayer s locationId playerId =
     (let pid = tmpl (js_or playerId (activePlayerId s)) in
      case map_of (players s) pid of
        None \<Rightarrow> s
      | Some p \<Rightarrow>
          s\<lparr>players := AList.update pid
               (p\<lparr>currentLocation := locationId,
                  visitedLocations :=
                    (if locationId \<in> set (visitedLocations p) then visitedLocations p
                     else visitedLocations p @ [locationId]),
                  turnCount := turnCount p + 1\<rparr>)
               (players s)\<rparr>)"

subsection \<open>Unique items\<close>

text \<open>
  The engine can pass \<open>null\<close> as the target (the current location of a missing player),
  so a recorded location is a string or \<open>null\<close>.
\<close>

definition moveUniqueItem ::
  "GameState \<Rightarrow> string \<Rightarrow> string option \<Rightarrow> string option \<Rightarrow> GameState" where
  "moveUniqueItem s iid toLocation playerId =
     s\<lparr>uniqueItemLocations :=
         AList.update iid
           (if toLocation = Some ''inventory'' then Some (inventoryKey s playerId) else toLocation)
           (uniqueItemLocations s)\<rparr>"

definition isUniqueItemInInventory :: "GameState \<Rightarrow> string \<Rightarrow> string option \<Rightarrow> bool" where
  "isUniqueItemInInventory s iid playerId =
     (map_of (uniqueItemLocations s) iid = Some (Some (inventoryKey s playerId)))"

definition getUniqueItemsAtLocation :: "GameState \<Rightarrow> string \<Rightarrow> string list" where
  "getUniqueItemsAtLocation s locationId =
     filter (\<lambda>iid. map_of (uniqueItemLocations s) iid = Some (Some locationId))
       (map fst (uniqueItemLocations s))"

definition getUniqueItemsInInventory :: "GameState \<Rightarrow> string option \<Rightarrow> string list" where
  "getUniqueItemsInInventory s playerId = getUniqueItemsAtLocation s (inventoryKey s playerId)"

subsection \<open>Generic item stacks\<close>

definition getGenericItemStack ::
  "GameState \<Rightarrow> string \<Rightarrow> string \<Rightarrow> string option \<Rightarrow> stack option" where
  "getGenericItemStack s containerId iid playerId =
     (case map_of (genericItemStacks s) (resolveContainer s containerId playerId) of
        None \<Rightarrow> None
      | Some stacks \<Rightarrow> find (\<lambda>st. itemId st = iid) stacks)"

definition getGenericItemQuantity ::
  "GameState \<Rightarrow> string \<Rightarrow> string \<Rightarrow> string option \<Rightarrow> int" where
  "getGenericItemQuantity s containerId iid playerId =
     (case getGenericItemStack s containerId iid playerId of
        None \<Rightarrow> 0
      | Some st \<Rightarrow> quantity st)"

text \<open>
  \<open>stack.quantity += d\<close> on the object that \<open>find\<close> returned: the first stack of that
  kind in the array is changed in place.
\<close>

fun adjustFirst :: "string \<Rightarrow> int \<Rightarrow> stack list \<Rightarrow> stack list" where
  "adjustFirst iid d [] = []"
| "adjustFirst iid d (st # sts) =
     (if itemId st = iid then st\<lparr>quantity := roundDouble (quantity st + d)\<rparr> # sts
      else st # adjustFirst iid d sts)"

definition addGenericItems ::
  "GameState \<Rightarrow> string \<Rightarrow> string \<Rightarrow> int \<Rightarrow> string option \<Rightarrow> GameState" where
  "addGenericItems s containerId iid q playerId =
     (let cid = resolveContainer s containerId playerId;
          stacks = (case map_of (genericItemStacks s) cid of None \<Rightarrow> [] | Some l \<Rightarrow> l);
          stacks' = (case find (\<lambda>st. itemId st = iid) stacks of
                       Some st \<Rightarrow> adjustFirst iid q stacks
                     | None \<Rightarrow> stacks @ [\<lparr>itemId = iid, quantity = q\<rparr>])
      in s\<lparr>genericItemStacks := AList.update cid stacks' (genericItemStacks s)\<rparr>)"

definition removeGenericItems ::
  "GameState \<Rightarrow> string \<Rightarrow> string \<Rightarrow> int \<Rightarrow> string option \<Rightarrow> bool \<times> GameState" where
  "removeGenericItems s containerId iid q playerId =
     (let cid = resolveContainer s containerId playerId in
      case map_of (genericItemStacks s) cid of
        None \<Rightarrow> (False, s)
      | Some stacks \<Rightarrow>
          (case find (\<lambda>st. itemId st = iid) stacks of
             None \<Rightarrow> (False, s)
           | Some st \<Rightarrow>
               if quantity st < q then (False, s)
               else
                 let stacks1 = adjustFirst iid (- q) stacks;
                     stacks2 = (if roundDouble (quantity st - q) = 0
                                then filter (\<lambda>x. itemId x \<noteq> iid) stacks1
                                else stacks1)
                 in (True, s\<lparr>genericItemStacks :=
                               AList.update cid stacks2 (genericItemStacks s)\<rparr>)))"

definition transferGenericItems ::
  "GameState \<Rightarrow> string \<Rightarrow> string \<Rightarrow> string \<Rightarrow> int \<Rightarrow> string option
     \<Rightarrow> bool \<times> GameState" where
  "transferGenericItems s fromContainerId toContainerId iid q playerId =
     (case removeGenericItems s fromContainerId iid q playerId of
        (True, s1) \<Rightarrow> (True, addGenericItems s1 toContainerId iid q playerId)
      | (False, s1) \<Rightarrow> (False, s1))"

definition getGenericItemStacksAt :: "GameState \<Rightarrow> string \<Rightarrow> string option \<Rightarrow> stack list" where
  "getGenericItemStacksAt s containerId playerId =
     (case map_of (genericItemStacks s) (resolveContainer s containerId playerId) of
        None \<Rightarrow> []
      | Some l \<Rightarrow> l)"

subsection \<open>Container and exit states\<close>

definition getContainerState :: "GameState \<Rightarrow> string \<Rightarrow> containerState" where
  "getContainerState s containerId =
     (case map_of (containerStates s) containerId of
        None \<Rightarrow> \<lparr>isLocked = False, isOpen = True\<rparr>
      | Some st \<Rightarrow> st)"

definition isContainerLocked :: "GameState \<Rightarrow> string \<Rightarrow> bool" where
  "isContainerLocked s containerId = isLocked (getContainerState s containerId)"

definition isContainerOpen :: "GameState \<Rightarrow> string \<Rightarrow> bool" where
  "isContainerOpen s containerId = isOpen (getContainerState s containerId)"

definition unlockContainer :: "GameState \<Rightarrow> string \<Rightarrow> GameState" where
  "unlockContainer s containerId =
     (let st = (case map_of (containerStates s) containerId of
                  None \<Rightarrow> \<lparr>isLocked = False, isOpen = False\<rparr>
                | Some st \<Rightarrow> st)
      in s\<lparr>containerStates :=
            AList.update containerId (st\<lparr>isLocked := False\<rparr>) (containerStates s)\<rparr>)"

definition openContainer :: "GameState \<Rightarrow> string \<Rightarrow> GameState" where
  "openContainer s containerId =
     (let st = (case map_of (containerStates s) containerId of
                  None \<Rightarrow> \<lparr>isLocked = False, isOpen = True\<rparr>
                | Some st \<Rightarrow> st)
      in s\<lparr>containerStates :=
            AList.update containerId (st\<lparr>isOpen := True\<rparr>) (containerStates s)\<rparr>)"

definition closeContainer :: "GameState \<Rightarrow> string \<Rightarrow> GameState" where
  "closeContainer s containerId =
     (let st = (case map_of (containerStates s) containerId of
                  None \<Rightarrow> \<lparr>isLocked = False, isOpen = False\<rparr>
                | Some st \<Rightarrow> st)
      in s\<lparr>containerStates :=
            AList.update containerId (st\<lparr>isOpen := False\<rparr>) (containerStates s)\<rparr>)"

definition lockContainer :: "GameState \<Rightarrow> string \<Rightarrow> GameState" where
  "lockContainer s containerId =
     (let st = (case map_of (containerStates s) containerId of
                  None \<Rightarrow> \<lparr>isLocked = True, isOpen = False\<rparr>
                | Some st \<Rightarrow> st)
      in s\<lparr>containerStates :=
            AList.update containerId (st\<lparr>isLocked := True\<rparr>) (containerStates s)\<rparr>)"

definition exitKey :: "string \<Rightarrow> string \<Rightarrow> string" where
  "exitKey locationId dir = locationId @ ''-'' @ dir"

definition isExitLocked :: "GameState \<Rightarrow> string \<Rightarrow> string \<Rightarrow> bool" where
  "isExitLocked s locationId dir =
     (case map_of (exitStates s) (exitKey locationId dir) of None \<Rightarrow> False | Some b \<Rightarrow> b)"

definition unlockExit :: "GameState \<Rightarrow> string \<Rightarrow> string \<Rightarrow> GameState" where
  "unlockExit s locationId dir =
     s\<lparr>exitStates := AList.update (exitKey locationId dir) False (exitStates s)\<rparr>"

definition lockExit :: "GameState \<Rightarrow> string \<Rightarrow> string \<Rightarrow> GameState" where
  "lockExit s locationId dir =
     s\<lparr>exitStates := AList.update (exitKey locationId dir) True (exitStates s)\<rparr>"

subsection \<open>Flags, quests, score\<close>

definition setFlag :: "GameState \<Rightarrow> string \<Rightarrow> jsval \<Rightarrow> GameState" where
  "setFlag s k v = s\<lparr>flags := AList.update k v (flags s)\<rparr>"

text \<open>\<open>getFlag(key)\<close> with the default \<open>null\<close>.\<close>

definition getFlag :: "GameState \<Rightarrow> string \<Rightarrow> jsval" where
  "getFlag s k = (case map_of (flags s) k of None \<Rightarrow> JNull | Some v \<Rightarrow> v)"

definition setQuestState :: "GameState \<Rightarrow> string \<Rightarrow> string \<Rightarrow> GameState" where
  "setQuestState s questId st = s\<lparr>questStates := AList.update questId st (questStates s)\<rparr>"

text \<open>\<open>this.questStates[questId] || null\<close>: an empty state string reads as \<open>null\<close>.\<close>

definition getQuestState :: "GameState \<Rightarrow> string \<Rightarrow> string option" where
  "getQuestState s questId = js_or (map_of (questStates s) questId) None"

definition addScore :: "GameState \<Rightarrow> int \<Rightarrow> string option \<Rightarrow> GameState" where
  "addScore s points playerId =
     (let pid = tmpl (js_or playerId (activePlayerId s)) in
      case map_of (players s) pid of
        None \<Rightarrow> s
      | Some p \<Rightarrow> s\<lparr>players := AList.update pid (p\<lparr>score := score p + points\<rparr>) (players s)\<rparr>)"

section \<open>Quantities held at a place\<close>

text \<open>The sum of the quantities of one item kind over all stacks listed at a place.\<close>

definition totalQuantity :: "GameState \<Rightarrow> string \<Rightarrow> string \<Rightarrow> string option \<Rightarrow> int" where
  "totalQuantity s containerId iid playerId =
     sum_list (map quantity (filter (\<lambda>st. itemId st = iid) (getGenericItemStacksAt s containerId playerId)))"

text \<open>
  The guard of \<open>removeGenericItems\<close>: the place has a stack of the kind and that stack
  holds at least \<open>q\<close>.
\<close>

definition sourceHolds :: "GameState \<Rightarrow> string \<Rightarrow> string \<Rightarrow> int \<Rightarrow> string option \<Rightarrow> bool" where
  "sourceHolds s containerId iid q playerId =
     (case getGenericItemStack s containerId iid playerId of
        None \<Rightarrow> False
      | Some st \<Rightarrow> q \<le> quantity st)"

text \<open>The place lists the item kind at most once.\<close>

definition listedOnce :: "GameState \<Rightarrow> string \<Rightarrow> string \<Rightarrow> string option \<Rightarrow> bool" where
  "listedOnce s containerId iid playerId =
     (length (filter (\<lambda>st. itemId st = iid) (getGenericItemStacksAt s containerId playerId)) \<le> 1)"

text \<open>Every stack listed anywhere in the store has a positive quantity.\<close>

definition stacksPositive :: "GameState \<Rightarrow> bool" where
  "stacksPositive s =
     list_all (\<lambda>e. list_all (\<lambda>st. 0 < quantity st) (snd e)) (genericItemStacks s)"

section \<open>The world definition\<close>

text \<open>
  The fields the engine reads of the immutable game definition. A visibility or reveal
  condition is the tagged object \<open>{type, ...}\<close>; its \<open>custom\<close> variant carries the \<open>check\<close>
  function when one is given, and any other \<open>type\<close> string is \<open>OtherCondition\<close>.
\<close>

datatype condition =
    PlayerAtLocation "string option"
  | HasItem bool string
  | HasItemWithTag bool string
  | FlagSet string
  | Custom "(GameState \<Rightarrow> bool) option"
  | OtherCondition

record exit =
  direction :: string
  leadsTo :: string
  locked :: bool
  lockedMessage :: "string option"
  requiredItem :: "string option"
  hidden :: bool
  revealCondition :: "condition option"

record location =
  loc_id :: string
  loc_name :: string
  loc_description :: string
  exits :: "exit list"
  requiresLight :: bool

record uniqueItem =
  item_id :: string
  item_name :: string
  item_location :: "string option"
  takeable :: bool
  visible :: bool
  isContainer :: bool
  contents :: "stack list"
  item_isLocked :: bool
  isClosed :: bool
  requiredKey :: "string option"
  item_lockedMessage :: "string option"
  closedMessage :: "string option"
  takeText :: "string option"
  dropText :: "string option"
  cantTakeText :: "string option"
  openText :: "string option"
  tags :: "string list"
  visibilityCondition :: "condition option"

record genericItem =
  generic_id :: string
  generic_name :: string
  namePlural :: string

record objective =
  objective_id :: string
  objective_description :: string
  required :: bool

record quest =
  quest_id :: string
  quest_name :: string
  isMainQuest :: bool
  initialState :: string
  objectives :: "objective list"
  requireAllObjectives :: bool
  scoreReward :: int
  itemRewards :: "string list"
  completionCheck :: "(GameState \<Rightarrow> bool) option"
  startMessage :: "string option"
  completionMessage :: "string option"

record npc =
  npc_id :: string
  npc_location :: "string option"

record game =
  game_id :: string
  locations :: "location list"
  genericItems :: "genericItem list"
  uniqueItems :: "uniqueItem list"
  npcs :: "npc list"
  quests :: "quest list"

text \<open>
  The lookup maps are built by \<open>Map.set\<close> in list order, so of two entries with one id
  the later one is found.
\<close>

definition getLocation :: "game \<Rightarrow> string \<Rightarrow> location option" where
  "getLocation g locationId = find (\<lambda>l. loc_id l = locationId) (rev (locations g))"

definition getGenericItem :: "game \<Rightarrow> string \<Rightarrow> genericItem option" where
  "getGenericItem g iid = find (\<lambda>i. generic_id i = iid) (rev (genericItems g))"

definition getUniqueItem :: "game \<Rightarrow> string \<Rightarrow> uniqueItem option" where
  "getUniqueItem g iid = find (\<lambda>i. item_id i = iid) (rev (uniqueItems g))"

subsection \<open>Item methods\<close>

definition canTake :: "uniqueItem \<Rightarrow> bool" where
  "canTake item = (takeable item \<and> visible item)"

text \<open>\<open>x || fallback\<close> for an optional message.\<close>

definition orElse :: "string option \<Rightarrow> string \<Rightarrow> string" where
  "orElse x fallback = (case x of None \<Rightarrow> fallback | Some m \<Rightarrow> if m = [] then fallback else m)"

definition getTakeMessage :: "uniqueItem \<Rightarrow> string" where
  "getTakeMessage item = orElse (takeText item) (''You take the '' @ item_name item @ ''.'')"

definition getDropMessage :: "uniqueItem \<Rightarrow> string" where
  "getDropMessage item = orElse (dropText item) (''You drop the '' @ item_name item @ ''.'')"

definition getCantTakeMessage :: "uniqueItem \<Rightarrow> string" where
  "getCantTakeMessage item =
     orElse (cantTakeText item) (''You can't take the '' @ item_name item @ ''.'')"

definition getOpenMessage :: "uniqueItem \<Rightarrow> string" where
  "getOpenMessage item =
     (if truthyS (openText item) then orElse (openText item) []
      else if isContainer item then ''You open the '' @ item_name item @ ''.''
      else ''You can't open the '' @ item_name item @ ''.'')"

definition getDisplayName :: "genericItem \<Rightarrow> int \<Rightarrow> string" where
  "getDisplayName item q = (if q = 1 then generic_name item else namePlural item)"

definition getDescription :: "genericItem \<Rightarrow> int \<Rightarrow> string" where
  "getDescription item q =
     (if q > 1 then numToString q @ '' '' @ getDisplayName item q else getDisplayName item q)"

section \<open>Constructing and serializing the store\<close>

text \<open>
  What \<open>toJSON\<close> writes and the constructor reads. A field that may be missing from a
  saved record is an option; the last four are the fields of the old single-player
  format. The time stamp that \<open>toJSON\<close> adds is not read back and is left out.
\<close>

record snapshot =
  snap_gameId :: string
  snap_players :: "(string \<times> player) list option"
  snap_activePlayerId :: "string option"
  snap_uniqueItemLocations :: "(string \<times> string option) list option"
  snap_genericItemStacks :: "(string \<times> stack list) list option"
  snap_npcLocations :: "(string \<times> string) list option"
  snap_containerStates :: "(string \<times> containerState) list option"
  snap_exitStates :: "(string \<times> bool) list option"
  snap_flags :: "(string \<times> jsval) list option"
  snap_questStates :: "(string \<times> string) list option"
  snap_currentLocation :: "string option"
  snap_score :: "int option"
  snap_turnCount :: "int option"
  snap_visitedLocations :: "string list option"

definition toJSON :: "GameState \<Rightarrow> snapshot" where
  "toJSON s =
     \<lparr>snap_gameId = gameId s,
      snap_players = Some (players s),
      snap_activePlayerId = activePlayerId s,
      snap_uniqueItemLocations = Some (uniqueItemLocations s),
      snap_genericItemStacks = Some (genericItemStacks s),
      snap_npcLocations = Some (npcLocations s),
      snap_containerStates = Some (containerStates s),
      snap_exitStates = Some (exitStates s),
      snap_flags = Some (flags s),
      snap_questStates = Some (questStates s),
      snap_currentLocation = None,
      snap_score = None,
      snap_turnCount = None,
      snap_visitedLocations = None\<rparr>"

text \<open>\<open>x || {}\<close> for an optional object, \<open>x || 0\<close> for an optional number.\<close>

definition orEmpty :: "'a list option \<Rightarrow> 'a list" where
  "orEmpty x = (case x of None \<Rightarrow> [] | Some l \<Rightarrow> l)"

definition orZero :: "int option \<Rightarrow> int" where
  "orZero x = (case x of None \<Rightarrow> 0 | Some n \<Rightarrow> n)"

text \<open>
  The branch of the constructor that loads an existing state. \<open>now\<close> is the clock
  reading \<open>Date.now()\<close>, as text, that names the player of a migrated old save.
\<close>

definition restoreGameState :: "string \<Rightarrow> snapshot \<Rightarrow> GameState" where
  "restoreGameState now existingState =
     (if truthyS (snap_currentLocation existingState) \<and> snap_players existingState = None
      then
        let legacyPlayerId = ''legacy-player-'' @ now;
            cl = orElse (snap_currentLocation existingState) [];
            playerInventoryKey = ''inventory-'' @ legacyPlayerId;
            uil = map_option
                    (map (\<lambda>(iid, l). (iid, if l = Some ''inventory'' then Some playerInventoryKey else l)))
                    (snap_uniqueItemLocations existingState);
            gis = (case snap_genericItemStacks existingState of
                     None \<Rightarrow> None
                   | Some m \<Rightarrow>
                       (case map_of m ''inventory'' of
                          None \<Rightarrow> Some m
                        | Some stacks \<Rightarrow>
                            Some (AList.delete ''inventory''
                                    (AList.update playerInventoryKey stacks m))))
        in \<lparr>gameId = snap_gameId existingState,
            players =
              [(legacyPlayerId,
                \<lparr>currentLocation = cl,
                   score = orZero (snap_score existingState),
                   turnCount = orZero (snap_turnCount existingState),
                   visitedLocations =
                     (case snap_visitedLocations existingState of None \<Rightarrow> [cl] | Some v \<Rightarrow> v),
                   playerFlags = []\<rparr>)],
            activePlayerId = Some legacyPlayerId,
            uniqueItemLocations = orEmpty uil,
            genericItemStacks = orEmpty gis,
            npcLocations = orEmpty (snap_npcLocations existingState),
            containerStates = orEmpty (snap_containerStates existingState),
            exitStates = orEmpty (snap_exitStates existingState),
            flags = orEmpty (snap_flags existingState),
            questStates = orEmpty (snap_questStates existingState)\<rparr>
      else
        \<lparr>gameId = snap_gameId existingState,
         players = orEmpty (snap_players existingState),
         activePlayerId = js_or (snap_activePlayerId existingState) None,
         uniqueItemLocations = orEmpty (snap_uniqueItemLocations existingState),
         genericItemStacks = orEmpty (snap_genericItemStacks existingState),
         npcLocations = orEmpty (snap_npcLocations existingState),
         containerStates = orEmpty (snap_containerStates existingState),
         exitStates = orEmpty (snap_exitStates existingState),
         flags = orEmpty (snap_flags existingState),
         questStates = orEmpty (snap_questStates existingState)\<rparr>)"

text \<open>The branch that initializes a new store from the game definition, loop by loop.\<close>

definition initUniqueItem :: "GameState \<Rightarrow> uniqueItem \<Rightarrow> GameState" where
  "initUniqueItem s item =
     (let s1 = (case item_location item of
                  None \<Rightarrow> s
                | Some l \<Rightarrow>
                    if l = [] then s
                    else s\<lparr>uniqueItemLocations :=
                            AList.update (item_id item) (Some l) (uniqueItemLocations s)\<rparr>);
          s2 = (if isContainer item \<and> length (contents item) > 0
                then s1\<lparr>genericItemStacks :=
                          AList.update (item_id item) (contents item) (genericItemStacks s1)\<rparr>
                else s1)
      in if isContainer item
         then s2\<lparr>containerStates :=
                   AList.update (item_id item)
                     \<lparr>isLocked = item_isLocked item, isOpen = (\<not> isClosed item)\<rparr>
                     (containerStates s2)\<rparr>
         else s2)"

definition initNpc :: "GameState \<Rightarrow> npc \<Rightarrow> GameState" where
  "initNpc s n =
     (case npc_location n of
        None \<Rightarrow> s
      | Some l \<Rightarrow>
          if l = [] then s
          else s\<lparr>npcLocations := AList.update (npc_id n) l (npcLocations s)\<rparr>)"

definition initQuest :: "GameState \<Rightarrow> quest \<Rightarrow> GameState" where
  "initQuest s q =
     s\<lparr>questStates :=
         AList.update (quest_id q)
           (if initialState q = [] then ''inactive'' else initialState q) (questStates s)\<rparr>"

definition initExit :: "string \<Rightarrow> GameState \<Rightarrow> exit \<Rightarrow> GameState" where
  "initExit locationId s e =
     s\<lparr>exitStates :=
         AList.update (exitKey locationId (direction e))
           (locked e \<or> (if truthyS (requiredItem e) then True else False)) (exitStates s)\<rparr>"

definition initLocation :: "GameState \<Rightarrow> location \<Rightarrow> GameState" where
  "initLocation s l = foldl (initExit (loc_id l)) s (exits l)"

definition freshGameState :: "game \<Rightarrow> GameState" where
  "freshGameState g =
     (let s0 = \<lparr>gameId = game_id g, players = [], activePlayerId = None,
                uniqueItemLocations = [], genericItemStacks = [], npcLocations = [],
                containerStates = [], exitStates = [], flags = [], questStates = []\<rparr>;
          s1 = foldl initUniqueItem s0 (uniqueItems g);
          s2 = foldl initNpc s1 (npcs g);
          s3 = foldl initQuest s2 (quests g)
      in foldl initLocation s3 (locations g))"

text \<open>\<open>new GameState(game, existingState)\<close>.\<close>

definition newGameState :: "string \<Rightarrow> game \<Rightarrow> snapshot option \<Rightarrow> GameState" where
  "newGameState now g existingState =
     (case existingState of
        Some e \<Rightarrow> restoreGameState now e
      | None \<Rightarrow> freshGameState g)"

definition addPlayer :: "GameState \<Rightarrow> string \<Rightarrow> string \<Rightarrow> GameState" where
  "addPlayer s playerId startLocation =
     (case map_of (players s) playerId of
        Some p \<Rightarrow> s
      | None \<Rightarrow>
          let s1 = s\<lparr>players :=
                       AList.update playerId
                         \<lparr>currentLocation = startLocation, score = 0, turnCount = 0,
                            visitedLocations = [startLocation], playerFlags = []\<rparr>
                         (players s)\<rparr>
          in if truthyS (activePlayerId s1) then s1 else s1\<lparr>activePlayerId := Some playerId\<rparr>)"

section \<open>Declared exits\<close>

text \<open>
  The exit keys of a game definition, in declaration order, and what the constructor's
  expression gives for one exit.
\<close>

definition exitKeys :: "game \<Rightarrow> string list" where
  "exitKeys g =
     concat (map (\<lambda>l. map (\<lambda>e. exitKey (loc_id l) (direction e)) (exits l)) (locations g))"

definition startsLocked :: "exit \<Rightarrow> bool" where
  "startsLocked e = (locked e \<or> truthyS (requiredItem e))"

text \<open>The constructor's loops over the exits, as one update per declared exit.\<close>

definition exitEntries :: "location \<Rightarrow> (string \<times> bool) list" where
  "exitEntries l = map (\<lambda>e. (exitKey (loc_id l) (direction e), startsLocked e)) (exits l)"

section \<open>The command execution engine\<close>

text \<open>
  A handler returns its response text and the store it leaves. Reading a field of
  \<open>undefined\<close> throws; the throw is the value \<open>Inl TypeError\<close>, returned with the store as
  it was when the throw happened.
\<close>

datatype error = TypeError

type_synonym response = "(error + string) \<times> GameState"

subsection \<open>Name matching and object lookup\<close>

text \<open>
  \<open>matchesName(item, searchName)\<close>, given the item's name and its plural (a unique item
  has none).
\<close>

definition matchesName :: "string \<Rightarrow> string option \<Rightarrow> string \<Rightarrow> bool" where
  "matchesName name plural searchName =
     (let itemName = toLowerCase name; search = toLowerCase searchName in
      if itemName = search then True
      else if (case plural of
                 None \<Rightarrow> False
               | Some pl \<Rightarrow>
                   pl \<noteq> [] \<and>
                   (let pluralName = toLowerCase pl in
                    pluralName = search \<or> js_includes pluralName search
                      \<or> js_includes search pluralName))
      then True
      else if js_includes itemName search then True
      else list_all (\<lambda>sw. list_ex (\<lambda>iw. startsWith iw sw) (splitWs itemName))
             (splitWs search))"

definition findUniqueItemAtLocation :: "game \<Rightarrow> GameState \<Rightarrow> string \<Rightarrow> uniqueItem option" where
  "findUniqueItemAtLocation g s name =
     (if \<not> truthyS (getCurrentLocation s) then None
      else find (\<lambda>item. visible item \<and> matchesName (item_name item) None name)
             (List.map_filter (getUniqueItem g)
                (getUniqueItemsAtLocation s (tmpl (getCurrentLocation s)))))"

definition findUniqueItemInInventory :: "game \<Rightarrow> GameState \<Rightarrow> string \<Rightarrow> uniqueItem option" where
  "findUniqueItemInInventory g s name =
     find (\<lambda>item. matchesName (item_name item) None name)
       (List.map_filter (getUniqueItem g) (getUniqueItemsInInventory s None))"

text \<open>The stacks of a place paired with their item kinds, skipping kinds the game lacks.\<close>

definition knownStacks :: "game \<Rightarrow> stack list \<Rightarrow> (genericItem \<times> stack) list" where
  "knownStacks g stacks =
     List.map_filter
       (\<lambda>st. case getGenericItem g (itemId st) of None \<Rightarrow> None | Some item \<Rightarrow> Some (item, st))
       stacks"

definition matchesGeneric :: "string \<Rightarrow> genericItem \<times> stack \<Rightarrow> bool" where
  "matchesGeneric name r =
     matchesName (generic_name (fst r)) (Some (namePlural (fst r))) name"

definition findGenericItemAtLocation ::
  "game \<Rightarrow> GameState \<Rightarrow> string \<Rightarrow> (genericItem \<times> stack) option" where
  "findGenericItemAtLocation g s name =
     (if \<not> truthyS (getCurrentLocation s) then None
      else find (matchesGeneric name)
             (knownStacks g (getGenericItemStacksAt s (tmpl (getCurrentLocation s)) None)))"

definition findGenericItemInInventory ::
  "game \<Rightarrow> GameState \<Rightarrow> string \<Rightarrow> (genericItem \<times> stack) option" where
  "findGenericItemInInventory g s name =
     find (matchesGeneric name) (knownStacks g (getGenericItemStacksAt s ''inventory'' None))"

subsection \<open>Visibility\<close>

text \<open>
  Modelled from the spec: \<open>GameState.getPlayersAtLocation\<close> is called by the engine but is
  not among the methods of models/game-state.js; the spec speaks of the players at a
  location, which the engine elsewhere computes inline as the ids whose
  \<open>currentLocation\<close> is that location.
\<close>

definition getPlayersAtLocation :: "GameState \<Rightarrow> string \<Rightarrow> string list" where
  "getPlayersAtLocation s locationId =
     filter (\<lambda>pid. case map_of (players s) pid of
                     None \<Rightarrow> False
                   | Some p \<Rightarrow> currentLocation p = locationId)
       (map fst (players s))"

definition playerHasItemWithTag :: "game \<Rightarrow> GameState \<Rightarrow> string option \<Rightarrow> string \<Rightarrow> bool" where
  "playerHasItemWithTag g s playerId tag =
     list_ex (\<lambda>iid. case getUniqueItem g iid of
                      None \<Rightarrow> False
                    | Some item \<Rightarrow> tag \<in> set (tags item))
       (getUniqueItemsAtLocation s (''inventory-'' @ tmpl playerId))"

definition isExitRevealed :: "game \<Rightarrow> GameState \<Rightarrow> string \<Rightarrow> exit \<Rightarrow> bool" where
  "isExitRevealed g s locationId e =
     (if \<not> hidden e then True
      else case revealCondition e of
        None \<Rightarrow> False
      | Some (HasItem anyPlayer iid) \<Rightarrow>
          if anyPlayer
          then list_ex (\<lambda>pid. isUniqueItemInInventory s iid (Some pid))
                 (getPlayersAtLocation s locationId)
          else isUniqueItemInInventory s iid None
      | Some (HasItemWithTag anyPlayer tag) \<Rightarrow>
          if anyPlayer
          then list_ex (\<lambda>pid. playerHasItemWithTag g s (Some pid) tag)
                 (getPlayersAtLocation s locationId)
          else playerHasItemWithTag g s (activePlayerId s) tag
      | Some (FlagSet flagName) \<Rightarrow> getFlag s flagName = JBool True
      | Some (Custom chk) \<Rightarrow> (case chk of None \<Rightarrow> False | Some f \<Rightarrow> f s)
      | Some (PlayerAtLocation l) \<Rightarrow> False
      | Some OtherCondition \<Rightarrow> False)"

definition isItemVisible :: "game \<Rightarrow> GameState \<Rightarrow> uniqueItem \<Rightarrow> string \<Rightarrow> bool" where
  "isItemVisible g s item locationId =
     (if \<not> visible item then False
      else case visibilityCondition item of
        None \<Rightarrow> True
      | Some (PlayerAtLocation l) \<Rightarrow>
          getPlayersAtLocation s (tmpl (js_or l (Some locationId))) \<noteq> []
      | Some (HasItem anyPlayer iid) \<Rightarrow>
          if anyPlayer
          then list_ex (\<lambda>pid. isUniqueItemInInventory s iid (Some pid))
                 (getPlayersAtLocation s locationId)
          else isUniqueItemInInventory s iid None
      | Some (HasItemWithTag anyPlayer tag) \<Rightarrow>
          if anyPlayer
          then list_ex (\<lambda>pid. playerHasItemWithTag g s (Some pid) tag)
                 (getPlayersAtLocation s locationId)
          else playerHasItemWithTag g s (activePlayerId s) tag
      | Some (FlagSet flagName) \<Rightarrow> getFlag s flagName = JBool True
      | Some (Custom chk) \<Rightarrow> (case chk of None \<Rightarrow> False | Some f \<Rightarrow> f s)
      | Some OtherCondition \<Rightarrow> True)"

subsection \<open>Describing the current location\<close>

definition checkQuestDiscovery :: "game \<Rightarrow> GameState \<Rightarrow> string \<Rightarrow> string option \<times> GameState" where
  "checkQuestDiscovery g s locationId =
     (if locationId = ''forest-clearing''
      then case find (\<lambda>q. quest_id q = ''explore-shed'') (quests g) of
             None \<Rightarrow> (None, s)
           | Some shedQuest \<Rightarrow>
               if getQuestState s ''explore-shed'' = Some ''inactive''
               then (startMessage shedQuest, setQuestState s ''explore-shed'' ''active'')
               else (None, s)
      else (None, s))"

text \<open>The lines of the stacks of a place: kinds the game lacks are skipped.\<close>

definition stackLines :: "game \<Rightarrow> stack list \<Rightarrow> string list" where
  "stackLines g stacks = map (\<lambda>r. getDescription (fst r) (quantity (snd r))) (knownStacks g stacks)"

definition getLocationDescription :: "game \<Rightarrow> GameState \<Rightarrow> string \<times> GameState" where
  "getLocationDescription g s =
     (if \<not> truthyS (getCurrentLocation s) then (''ERROR: No active player or location.'', s)
      else
        let here = tmpl (getCurrentLocation s) in
        case getLocation g here of
          None \<Rightarrow> (''ERROR: Location not found.'', s)
        | Some location \<Rightarrow>
            if requiresLight location \<and>
               \<not> list_ex (\<lambda>pid. playerHasItemWithTag g s (Some pid) ''light-source'')
                    (getPlayersAtLocation s here)
            then (''**'' @ loc_name location @ ''**'' @ newline @
                  ''It's pitch black. You can't see anything. You need a light source.'', s)
            else
              let out1 = [''**'' @ loc_name location @ ''**'', loc_description location];
                  visibleItems =
                    filter (\<lambda>item. isItemVisible g s item here)
                      (List.map_filter (getUniqueItem g)
                         (getUniqueItemsAtLocation s here));
                  out2 = (if visibleItems \<noteq> []
                          then out1 @ [newline @ ''You see: '' @
                                       join '', '' (map item_name visibleItems)]
                          else out1);
                  stackDescriptions =
                    stackLines g (getGenericItemStacksAt s here None);
                  out3 = (if stackDescriptions \<noteq> []
                          then out2 @ [''There are: '' @ join '', '' stackDescriptions]
                          else out2);
                  visibleExits =
                    filter (\<lambda>e. if hidden e then isExitRevealed g s here e else True)
                      (exits location);
                  out4 = (if visibleExits \<noteq> []
                          then out3 @ [newline @ ''Obvious exits: '' @
                                       join '', '' (map direction visibleExits)]
                          else out3);
                  r = checkQuestDiscovery g s here;
                  out5 = (if truthyS (fst r) then out4 @ [newline @ tmpl (fst r)] else out4)
              in (join newline out5, snd r))"

subsection \<open>GO\<close>

definition exitMatches :: "string \<Rightarrow> exit \<Rightarrow> bool" where
  "exitMatches dir e =
     (toLowerCase (direction e) = dir \<or> startsWith (toLowerCase (direction e)) dir)"

text \<open>The part of \<open>cmdGo\<close> after the lock check: the move and the description.\<close>

definition goThrough :: "game \<Rightarrow> GameState \<Rightarrow> exit \<Rightarrow> response" where
  "goThrough g s e =
     (let s1 = movePlayer s (leadsTo e) None;
          s2 = (if leadsTo e = ''old-shed''
                then setFlag s1 ''quest-explore-shed-objective-enter-shed'' (JBool True)
                else s1);
          r = getLocationDescription g s2
      in (Inr (fst r), snd r))"

lemma unlock_fewer_locked:
  "map_of m k = Some True \<Longrightarrow>
   length (filter snd (AList.update k False m)) < length (filter snd m)"
  by (induction m) (auto split: if_splits)

function cmdGo :: "game \<Rightarrow> GameState \<Rightarrow> string option \<Rightarrow> response" where
  "cmdGo g s dir =
     (if \<not> truthyS dir then (Inr ''Go where?'', s)
      else if \<not> truthyS (getCurrentLocation s)
      then (Inr ''ERROR: No active player or location.'', s)
      else
        case getLocation g (tmpl (getCurrentLocation s)) of
          None \<Rightarrow> (Inr ''You can't go anywhere from here.'', s)
        | Some location \<Rightarrow>
            (case find (exitMatches (tmpl dir)) (exits location) of
               None \<Rightarrow> (Inr (''You can't go '' @ tmpl dir @ '' from here.''), s)
             | Some e \<Rightarrow>
                 if isExitLocked s (tmpl (getCurrentLocation s)) (direction e)
                 then
                   if truthyS (requiredItem e) \<and>
                      isUniqueItemInInventory s (tmpl (requiredItem e)) None
                   then
                     (case getUniqueItem g (tmpl (requiredItem e)) of
                        None \<Rightarrow>
                          (Inl TypeError,
                           unlockExit s (tmpl (getCurrentLocation s)) (direction e))
                      | Some item \<Rightarrow>
                          (case cmdGo g
                                  (unlockExit s (tmpl (getCurrentLocation s)) (direction e))
                                  dir of
                             (Inl err, s') \<Rightarrow> (Inl err, s')
                           | (Inr rest, s') \<Rightarrow>
                               (Inr (''You use the '' @ item_name item @
                                     '' to unlock the way '' @ direction e @ ''.'' @
                                     newline @ newline @ rest), s')))
                   else (Inr (orElse (lockedMessage e) ''That way is locked.''), s)
                 else goThrough g s e))"
  by pat_completeness auto
termination
  by (relation "measure (\<lambda>(g, s, dir). length (filter snd (exitStates s)))")
     (auto simp: isExitLocked_def unlockExit_def intro: unlock_fewer_locked split: option.splits)

declare cmdGo.simps [simp del]

subsection \<open>TAKE and DROP\<close>

text \<open>A parsed quantity: a number, or the word \<open>'all'\<close>.\<close>

datatype qty = Num int | All

text \<open>
  The end of \<open>takeFromContainer\<close>, once the quantity is settled: the transfer, the
  quest marker for the treasure chest, and the message.
\<close>

definition takeOut ::
  "game \<Rightarrow> GameState \<Rightarrow> uniqueItem \<Rightarrow> genericItem \<Rightarrow> int \<Rightarrow> response" where
  "takeOut g s container item actualQty =
     (case transferGenericItems s (item_id container) ''inventory'' (generic_id item)
             actualQty None of
        (True, s1) \<Rightarrow>
          (Inr (''You take '' @ getDescription item actualQty @ '' from the '' @
                item_name container @ ''.''),
           if item_id container = ''treasure-chest'' \<and>
              (generic_id item = ''gold-coin'' \<or> generic_id item = ''gem'')
           then setFlag s1 ''quest-find-treasure-objective-collect-treasure'' (JBool True)
           else s1)
      | (False, s1) \<Rightarrow> (Inr ''You can't take that.'', s1))"

definition takeFromContainer ::
  "game \<Rightarrow> GameState \<Rightarrow> string \<Rightarrow> string \<Rightarrow> qty option \<Rightarrow> response" where
  "takeFromContainer g s objectName containerName q =
     (case findUniqueItemAtLocation g s containerName of
        None \<Rightarrow> (Inr (''I don't see '' @ containerName @ '' here.''), s)
      | Some container \<Rightarrow>
          if \<not> isContainer container
          then (Inr (''The '' @ item_name container @ '' is not a container.''), s)
          else if \<not> isContainerOpen s (item_id container)
          then (Inr (orElse (closedMessage container)
                       (''The '' @ item_name container @ '' is closed.'')), s)
          else
            case find (matchesGeneric objectName)
                   (knownStacks g (getGenericItemStacksAt s (item_id container) None)) of
              None \<Rightarrow>
                (Inr (''There's no '' @ objectName @ '' in the '' @ item_name container @ ''.''),
                 s)
            | Some (item, st) \<Rightarrow>
                (case (case q of None \<Rightarrow> All | Some takeQty \<Rightarrow> takeQty) of
                   All \<Rightarrow> takeOut g s container item (quantity st)
                 | Num n \<Rightarrow>
                     if n > quantity st
                     then (Inr (''There are only '' @ numToString (quantity st) @ '' '' @
                                getDisplayName item (quantity st) @ '' in the '' @
                                item_name container @ ''.''), s)
                     else takeOut g s container item (min n (quantity st))))"

definition cmdTake ::
  "game \<Rightarrow> GameState \<Rightarrow> string option \<Rightarrow> string option \<Rightarrow> string option \<Rightarrow> qty option
     \<Rightarrow> response" where
  "cmdTake g s objectName fromObject prep q =
     (if \<not> truthyS objectName then (Inr ''Take what?'', s)
      else if truthyS fromObject \<and> truthyS prep
      then takeFromContainer g s (tmpl objectName) (tmpl fromObject) q
      else
        case findUniqueItemAtLocation g s (tmpl objectName) of
          Some uniqueItem \<Rightarrow>
            if \<not> canTake uniqueItem then (Inr (getCantTakeMessage uniqueItem), s)
            else (Inr (getTakeMessage uniqueItem),
                  moveUniqueItem s (item_id uniqueItem) (Some ''inventory'') None)
        | None \<Rightarrow>
            (case findGenericItemAtLocation g s (tmpl objectName) of
               None \<Rightarrow> (Inr ''I don't see that here.'', s)
             | Some (item, st) \<Rightarrow>
                 let actualQty =
                       (case (case q of None \<Rightarrow> All | Some takeQty \<Rightarrow> takeQty) of
                          All \<Rightarrow> quantity st
                        | Num n \<Rightarrow> min n (quantity st))
                 in case transferGenericItems s (tmpl (getCurrentLocation s)) ''inventory''
                           (generic_id item) actualQty None of
                      (True, s1) \<Rightarrow>
                        (Inr (''You take '' @ getDescription item actualQty @ ''.''), s1)
                    | (False, s1) \<Rightarrow> (Inr ''I don't see that here.'', s1)))"

text \<open>The end of \<open>cmdDrop\<close> for a generic item, once the quantity is settled.\<close>

definition dropDown :: "GameState \<Rightarrow> genericItem \<Rightarrow> int \<Rightarrow> response" where
  "dropDown s item actualQty =
     (case transferGenericItems s ''inventory'' (tmpl (getCurrentLocation s))
             (generic_id item) actualQty None of
        (True, s1) \<Rightarrow> (Inr (''You drop '' @ getDescription item actualQty @ ''.''), s1)
      | (False, s1) \<Rightarrow> (Inr ''You don't have that.'', s1))"

definition cmdDrop :: "game \<Rightarrow> GameState \<Rightarrow> string option \<Rightarrow> qty option \<Rightarrow> response" where
  "cmdDrop g s objectName q =
     (if \<not> truthyS objectName then (Inr ''Drop what?'', s)
      else
        case findUniqueItemInInventory g s (tmpl objectName) of
          Some uniqueItem \<Rightarrow>
            (Inr (getDropMessage uniqueItem),
             moveUniqueItem s (item_id uniqueItem) (getCurrentLocation s) None)
        | None \<Rightarrow>
            (case findGenericItemInInventory g s (tmpl objectName) of
               None \<Rightarrow> (Inr ''You don't have that.'', s)
             | Some (item, st) \<Rightarrow>
                 (case (case q of None \<Rightarrow> All | Some dropQty \<Rightarrow> dropQty) of
                    Num n \<Rightarrow>
                      if n > quantity st
                      then (Inr (''You only have '' @ numToString (quantity st) @ '' '' @
                                 getDisplayName item (quantity st) @ ''.''), s)
                      else dropDown s item (min n (quantity st))
                  | All \<Rightarrow> dropDown s item (quantity st))))"

subsection \<open>OPEN and CLOSE\<close>

definition cmdOpen :: "game \<Rightarrow> GameState \<Rightarrow> string option \<Rightarrow> response" where
  "cmdOpen g s objectName =
     (if \<not> truthyS objectName then (Inr ''Open what?'', s)
      else
        case findUniqueItemAtLocation g s (tmpl objectName) of
          None \<Rightarrow> (Inr ''I don't see that here.'', s)
        | Some uniqueItem \<Rightarrow>
            if \<not> isContainer uniqueItem
            then (Inr (''You can't open the '' @ item_name uniqueItem @ ''.''), s)
            else if isContainerLocked s (item_id uniqueItem)
            then (Inr (orElse (item_lockedMessage uniqueItem)
                         (''The '' @ item_name uniqueItem @ '' is locked.'')), s)
            else if isContainerOpen s (item_id uniqueItem)
            then
              (let stacks = getGenericItemStacksAt s (item_id uniqueItem) None in
               if stacks = []
               then (Inr (''The '' @ item_name uniqueItem @ '' is already open and empty.''), s)
               else (Inr (join newline
                            ((''The '' @ item_name uniqueItem @ '' is already open.'' @ newline @
                              ''Inside you see:'')
                             # map (\<lambda>l. ''  '' @ l) (stackLines g stacks))), s))
            else
              (let s1 = openContainer s (item_id uniqueItem);
                   stacks = getGenericItemStacksAt s1 (item_id uniqueItem) None in
               if stacks = []
               then (Inr (''You open the '' @ item_name uniqueItem @ ''. It's empty.''), s1)
               else (Inr (join newline
                            ([getOpenMessage uniqueItem, newline @ ''Inside you see:'']
                             @ map (\<lambda>l. ''  '' @ l) (stackLines g stacks))), s1)))"

definition cmdClose :: "game \<Rightarrow> GameState \<Rightarrow> string option \<Rightarrow> response" where
  "cmdClose g s objectName =
     (if \<not> truthyS objectName then (Inr ''Close what?'', s)
      else
        case findUniqueItemAtLocation g s (tmpl objectName) of
          None \<Rightarrow> (Inr ''I don't see that here.'', s)
        | Some uniqueItem \<Rightarrow>
            if \<not> isContainer uniqueItem
            then (Inr (''You can't close the '' @ item_name uniqueItem @ ''.''), s)
            else if \<not> isContainerOpen s (item_id uniqueItem)
            then (Inr (''The '' @ item_name uniqueItem @ '' is already closed.''), s)
            else (Inr (''You close the '' @ item_name uniqueItem @ ''.''),
                  closeContainer s (item_id uniqueItem)))"

subsection \<open>UNLOCK\<close>

text \<open>The inventory items whose name matches the key clause, in inventory order.\<close>

definition matchingKeys :: "game \<Rightarrow> GameState \<Rightarrow> string \<Rightarrow> uniqueItem list" where
  "matchingKeys g s keyName =
     filter (\<lambda>item. matchesName (item_name item) None keyName)
       (List.map_filter (getUniqueItem g) (getUniqueItemsInInventory s None))"

definition unlockExitMatches :: "string \<Rightarrow> exit \<Rightarrow> bool" where
  "unlockExitMatches objectName e =
     (toLowerCase (direction e) = toLowerCase objectName
      \<or> startsWith (toLowerCase (direction e)) (toLowerCase objectName)
      \<or> js_includes (toLowerCase objectName) (toLowerCase (direction e)))"

text \<open>The second half of \<open>cmdUnlock\<close>: the object is not a container here, try an exit.\<close>

definition unlockExitCmd ::
  "game \<Rightarrow> GameState \<Rightarrow> string \<Rightarrow> string option \<Rightarrow> string option \<Rightarrow> response" where
  "unlockExitCmd g s objectName keyName prep =
     (let here = tmpl (getCurrentLocation s) in
      case (if getCurrentLocation s = None then None else getLocation g here) of
        None \<Rightarrow> (Inr ''I don't see that here.'', s)
      | Some location \<Rightarrow>
          (case find (unlockExitMatches objectName) (exits location) of
             None \<Rightarrow> (Inr ''I don't see that here.'', s)
           | Some e \<Rightarrow>
               if \<not> isExitLocked s here (direction e)
               then (Inr (''The way '' @ direction e @ '' is already unlocked.''), s)
               else if truthyS keyName \<and> truthyS prep
               then
                 (case matchingKeys g s (tmpl keyName) of
                    [] \<Rightarrow> (Inr (''You don't have '' @ tmpl keyName @ ''.''), s)
                  | firstKey # otherKeys \<Rightarrow>
                      if truthyS (requiredItem e)
                      then
                        (case find (\<lambda>k. item_id k = tmpl (requiredItem e))
                                (firstKey # otherKeys) of
                           Some correctKey \<Rightarrow>
                             (Inr (''You unlock the way '' @ direction e @ '' with the '' @
                                   item_name correctKey @ ''.''),
                              unlockExit s here (direction e))
                         | None \<Rightarrow> (Inr ''None of your keys fit the lock.'', s))
                      else
                        (Inr (''You unlock the way '' @ direction e @ '' with the '' @
                              item_name firstKey @ ''.''),
                         unlockExit s here (direction e)))
               else if truthyS (requiredItem e)
               then
                 (case getUniqueItem g (tmpl (requiredItem e)) of
                    None \<Rightarrow>
                      (Inr (''You need something to unlock the way '' @ direction e @ ''.''), s)
                  | Some item \<Rightarrow>
                      if isUniqueItemInInventory s (item_id item) None
                      then (Inr (''You unlock the way '' @ direction e @ '' with the '' @
                                 item_name item @ ''.''),
                            unlockExit s here (direction e))
                      else (Inr (''You need something to unlock the way '' @ direction e @ ''.''),
                            s))
               else (Inr (''You unlock the way '' @ direction e @ ''.''),
                     unlockExit s here (direction e))))"

definition cmdUnlock ::
  "game \<Rightarrow> GameState \<Rightarrow> string option \<Rightarrow> string option \<Rightarrow> string option \<Rightarrow> response" where
  "cmdUnlock g s objectName keyName prep =
     (if \<not> truthyS objectName then (Inr ''Unlock what?'', s)
      else
        case (case findUniqueItemAtLocation g s (tmpl objectName) of
                None \<Rightarrow> None
              | Some u \<Rightarrow> if isContainer u then Some u else None) of
          Some uniqueItem \<Rightarrow>
            if \<not> isContainerLocked s (item_id uniqueItem)
            then (Inr (''The '' @ item_name uniqueItem @ '' is already unlocked.''), s)
            else if truthyS keyName \<and> truthyS prep
            then
              (case matchingKeys g s (tmpl keyName) of
                 [] \<Rightarrow> (Inr (''You don't have '' @ tmpl keyName @ ''.''), s)
               | firstKey # otherKeys \<Rightarrow>
                   if truthyS (requiredKey uniqueItem)
                   then
                     (case find (\<lambda>k. item_id k = tmpl (requiredKey uniqueItem))
                             (firstKey # otherKeys) of
                        Some correctKey \<Rightarrow>
                          (Inr (''You unlock the '' @ item_name uniqueItem @ '' with the '' @
                                item_name correctKey @ ''.''),
                           unlockContainer s (item_id uniqueItem))
                      | None \<Rightarrow> (Inr ''None of your keys fit the lock.'', s))
                   else
                     (Inr (''You unlock the '' @ item_name uniqueItem @ '' with the '' @
                           item_name firstKey @ ''.''),
                      unlockContainer s (item_id uniqueItem)))
            else if truthyS (requiredKey uniqueItem)
            then
              (case getUniqueItem g (tmpl (requiredKey uniqueItem)) of
                 None \<Rightarrow>
                   (Inr (''You need a key to unlock the '' @ item_name uniqueItem @ ''.''), s)
               | Some k \<Rightarrow>
                   if isUniqueItemInInventory s (item_id k) None
                   then (Inr (''You unlock the '' @ item_name uniqueItem @ '' with the '' @
                              item_name k @ ''.''),
                         unlockContainer s (item_id uniqueItem))
                   else (Inr (''You need a key to unlock the '' @ item_name uniqueItem @ ''.''),
                         s))
            else (Inr (''You unlock the '' @ item_name uniqueItem @ ''.''),
                  unlockContainer s (item_id uniqueItem))
        | None \<Rightarrow> unlockExitCmd g s (tmpl objectName) keyName prep)"

text \<open>
  The store with one container recorded as unlocked and open, which is what the store
  reports of a container it has no entry for.
\<close>

definition recordOpen :: "GameState \<Rightarrow> string \<Rightarrow> GameState" where
  "recordOpen s containerId =
     s\<lparr>containerStates :=
         AList.update containerId \<lparr>isLocked = False, isOpen = True\<rparr> (containerStates s)\<rparr>"



section \<open>The command parser\<close>

definition verbSynonyms :: "(string \<times> string list) list" where
  "verbSynonyms =
     [(''LOOK'', [''look'', ''l'', ''examine room'', ''describe'']),
      (''GO'', [''go'', ''walk'', ''run'', ''move'', ''head'', ''travel'']),
      (''NORTH'', [''north'', ''n'']),
      (''SOUTH'', [''south'', ''s'']),
      (''EAST'', [''east'', ''e'']),
      (''WEST'', [''west'', ''w'']),
      (''UP'', [''up'', ''u'', ''climb up'']),
      (''DOWN'', [''down'', ''d'', ''climb down'']),
      (''TAKE'', [''take'', ''get'', ''grab'', ''pick up'', ''pick'', ''acquire'']),
      (''DROP'', [''drop'', ''discard'', ''put down'', ''leave'']),
      (''END'', [''end'', ''end turn'', ''wait'', ''pass'']),
      (''INVENTORY'', [''inventory'', ''i'', ''inv'']),
      (''EXAMINE'', [''examine'', ''ex'', ''x'', ''inspect'', ''look at'', ''check'']),
      (''OPEN'', [''open'', ''look inside'', ''look in'']),
      (''UNLOCK'', [''unlock'']),
      (''LOCK'', [''lock'']),
      (''CLOSE'', [''close'', ''shut'']),
      (''USE'', [''use'', ''employ'', ''activate'']),
      (''PUT'', [''put'', ''place'', ''insert'']),
      (''QUEST'', [''quest'', ''q'', ''mission'']),
      (''QUESTS'', [''quests'', ''missions'', ''objectives''])]"

definition prepositions :: "string list" where
  "prepositions =
     [''in'', ''into'', ''inside'', ''on'', ''onto'', ''at'', ''to'', ''from'', ''with'', ''using'']"

definition articles :: "string list" where
  "articles = [''a'', ''an'', ''the'', ''some'', ''my'']"

definition numberWords :: "(string \<times> qty) list" where
  "numberWords =
     [(''one'', Num 1), (''two'', Num 2), (''three'', Num 3), (''four'', Num 4),
      (''five'', Num 5), (''six'', Num 6), (''seven'', Num 7), (''eight'', Num 8),
      (''nine'', Num 9), (''ten'', Num 10), (''all'', All), (''everything'', All)]"

definition tokenize :: "string \<Rightarrow> string list" where
  "tokenize input = filter (\<lambda>w. w \<notin> set articles) (splitWs (trim (toLowerCase input)))"

definition normalizeVerb :: "string \<Rightarrow> string option" where
  "normalizeVerb word =
     map_option fst (find (\<lambda>entry. word \<in> set (snd entry)) verbSynonyms)"

definition isPreposition :: "string \<Rightarrow> bool" where
  "isPreposition word = (word \<in> set prepositions)"

record parsedCommand =
  verb :: string
  cmd_quantity :: "qty option"
  directObject :: "string option"
  indirectObject :: "string option"
  preposition :: "string option"

text \<open>\<open>x || null\<close> for a string: the empty string becomes \<open>null\<close>.\<close>

definition orNull :: "string \<Rightarrow> string option" where
  "orNull x = (if x = [] then None else Some x)"

text \<open>
  \<open>numTok\<close> stands for the built-in test and conversion of a numeric token,
  \<open>!isNaN(t)\<close> and \<open>parseInt(t)\<close>: it gives the integer of a token that is numeric.
\<close>

definition parseObjects :: "(string \<Rightarrow> int option) \<Rightarrow> string \<Rightarrow> string list \<Rightarrow> parsedCommand" where
  "parseObjects numTok v tokens =
     (if tokens = []
      then \<lparr>verb = v, cmd_quantity = None, directObject = None, indirectObject = None,
            preposition = None\<rparr>
      else
        let firstToken = hd tokens;
            qo = (case numTok firstToken of
                    Some n \<Rightarrow> (Some (Num n), tl tokens)
                  | None \<Rightarrow>
                      (case map_of numberWords firstToken of
                         Some q \<Rightarrow> (Some q, tl tokens)
                       | None \<Rightarrow> (None, tokens)));
            objectTokens = snd qo;
            before = takeWhile (\<lambda>t. \<not> isPreposition t) objectTokens;
            rest = dropWhile (\<lambda>t. \<not> isPreposition t) objectTokens
        in case rest of
             [] \<Rightarrow>
               \<lparr>verb = v, cmd_quantity = fst qo, directObject = orNull (join '' '' objectTokens),
                indirectObject = None, preposition = None\<rparr>
           | p # after \<Rightarrow>
               \<lparr>verb = v, cmd_quantity = fst qo, directObject = orNull (join '' '' before),
                indirectObject = orNull (join '' '' after), preposition = orNull p\<rparr>)"

text \<open>
  The verb resolution of \<open>matchPattern\<close>: the canonical verb found, if any, and the
  tokens left after it. The two-word phrase is looked up first, then the three-word
  phrase, then the first word.
\<close>

definition matchVerb :: "string list \<Rightarrow> string option \<times> string list" where
  "matchVerb tokens =
     (let r2 = (if length tokens \<ge> 2
                then (case normalizeVerb (tokens ! 0 @ '' '' @ tokens ! 1) of
                        Some v \<Rightarrow> (Some v, drop 2 tokens)
                      | None \<Rightarrow> (None, tokens))
                else (None, tokens));
          r3 = (if fst r2 = None \<and> length tokens \<ge> 3
                then (case normalizeVerb (tokens ! 0 @ '' '' @ tokens ! 1 @ '' '' @ tokens ! 2) of
                        Some v \<Rightarrow> (Some v, drop 3 tokens)
                      | None \<Rightarrow> r2)
                else r2)
      in if fst r3 = None then (normalizeVerb (tokens ! 0), drop 1 tokens) else r3)"

definition matchPattern :: "(string \<Rightarrow> int option) \<Rightarrow> string list \<Rightarrow> string + parsedCommand" where
  "matchPattern numTok tokens =
     (if tokens = [] then Inl ''I don't understand that.''
      else
        case matchVerb tokens of
          (None, remainingTokens) \<Rightarrow>
            Inl (''I don't know the word '' @ [CHR 0x22] @ tokens ! 0 @ [CHR 0x22] @ ''.'')
        | (Some v, remainingTokens) \<Rightarrow>
            if v \<in> set [''NORTH'', ''SOUTH'', ''EAST'', ''WEST'', ''UP'', ''DOWN'']
            then Inr \<lparr>verb = ''GO'', cmd_quantity = None, directObject = Some (toLowerCase v),
                      indirectObject = None, preposition = None\<rparr>
            else Inr (parseObjects numTok v remainingTokens))"

text \<open>
  \<open>command.match(/^(?:quest|quests)\s+(.+)$/i)\<close>, giving the trimmed group: the word,
  a run of white space, and a rest without line breaks.
\<close>

definition questRest :: "string \<Rightarrow> string option" where
  "questRest r =
     (if r \<noteq> [] \<and> isSpace (hd r) \<and> dropWhile isSpace r \<noteq> []
         \<and> list_all (\<lambda>c. c \<noteq> CHR 0x0A \<and> c \<noteq> CHR 0x0D) (dropWhile isSpace r)
      then Some (trim (dropWhile isSpace r)) else None)"

definition questMatch :: "string \<Rightarrow> string option" where
  "questMatch command =
     (if toLowerCase (take 5 command) = ''quest''
      then (case questRest (drop 5 command) of
              Some d \<Rightarrow> Some d
            | None \<Rightarrow>
                if toLowerCase (take 6 command) = ''quests'' then questRest (drop 6 command)
                else None)
      else None)"

subsection \<open>Dispatch\<close>

record commandResult =
  response :: string
  consumesTurn :: bool

definition nonTurnCommands :: "string list" where
  "nonTurnCommands = [''LOOK'', ''INVENTORY'', ''EXAMINE'', ''QUEST'', ''QUESTS'']"

text \<open>
  The \<open>switch\<close> of \<open>executeCommand\<close>. The handlers modelled above are called as the source
  calls them; \<open>others\<close> stands for the bodies of the remaining cases (LOOK, INVENTORY,
  EXAMINE, END, LOCK, USE, PUT, QUEST, QUESTS and the default).
\<close>

definition dispatch ::
  "game \<Rightarrow> (parsedCommand \<Rightarrow> GameState \<Rightarrow> response) \<Rightarrow> parsedCommand \<Rightarrow> GameState \<Rightarrow> response" where
  "dispatch g others parsed s =
     (if verb parsed = ''GO'' then cmdGo g s (directObject parsed)
      else if verb parsed = ''TAKE''
      then cmdTake g s (directObject parsed) (indirectObject parsed) (preposition parsed)
             (cmd_quantity parsed)
      else if verb parsed = ''DROP'' then cmdDrop g s (directObject parsed) (cmd_quantity parsed)
      else if verb parsed = ''OPEN'' then cmdOpen g s (directObject parsed)
      else if verb parsed = ''UNLOCK''
      then cmdUnlock g s (directObject parsed) (indirectObject parsed) (preposition parsed)
      else if verb parsed = ''CLOSE'' then cmdClose g s (directObject parsed)
      else others parsed s)"

definition executeCommand ::
  "game \<Rightarrow> (parsedCommand \<Rightarrow> GameState \<Rightarrow> response) \<Rightarrow> parsedCommand \<Rightarrow> GameState
     \<Rightarrow> (error + commandResult) \<times> GameState" where
  "executeCommand g others parsed s =
     (let turn = (verb parsed \<notin> set nonTurnCommands) in
      case dispatch g others parsed s of
        (Inl err, s1) \<Rightarrow> (Inl err, s1)
      | (Inr txt, s1) \<Rightarrow> (Inr \<lparr>response = txt, consumesTurn = turn\<rparr>, s1))"

definition parseCommand ::
  "game \<Rightarrow> (parsedCommand \<Rightarrow> GameState \<Rightarrow> response) \<Rightarrow> (string \<Rightarrow> int option) \<Rightarrow> string
     \<Rightarrow> GameState \<Rightarrow> (error + commandResult) \<times> GameState" where
  "parseCommand g others numTok input s =
     (let command = trim input in
      if command = []
      then (Inr \<lparr>response = ''Please enter a command.'', consumesTurn = False\<rparr>, s)
      else
        let tokens = tokenize command in
        if tokens = []
        then (Inr \<lparr>response = ''I don't understand that.'', consumesTurn = False\<rparr>, s)
        else
          case matchPattern numTok tokens of
            Inl err \<Rightarrow> (Inr \<lparr>response = err, consumesTurn = False\<rparr>, s)
          | Inr result \<Rightarrow>
              executeCommand g others
                (if verb result = ''QUEST'' \<or> verb result = ''QUESTS''
                 then (case questMatch command of
                         None \<Rightarrow> result
                       | Some d \<Rightarrow> result\<lparr>directObject := Some d\<rparr>)
                 else result)
                s)"

text \<open>A reading of numeric tokens for the examples: unsigned decimal digit strings.\<close>

definition decimalToken :: "string \<Rightarrow> int option" where
  "decimalToken t =
     (if t \<noteq> [] \<and> list_all (\<lambda>c. c \<in> set ''0123456789'') t
      then Some (foldl (\<lambda>n c. 10 * n + int (length (takeWhile (\<lambda>d. d \<noteq> c) ''0123456789''))) 0 t)
      else None)"

text \<open>
  Verb resolution in the words of the spec: the three-token phrase is looked up first,
  then the two-token phrase, then the first token.
\<close>

definition matchVerbLongest :: "string list \<Rightarrow> string option \<times> string list" where
  "matchVerbLongest tokens =
     (case (if length tokens \<ge> 3
            then normalizeVerb (tokens ! 0 @ '' '' @ tokens ! 1 @ '' '' @ tokens ! 2)
            else None) of
        Some v \<Rightarrow> (Some v, drop 3 tokens)
      | None \<Rightarrow>
          (case (if length tokens \<ge> 2
                 then normalizeVerb (tokens ! 0 @ '' '' @ tokens ! 1)
                 else None) of
             Some v \<Rightarrow> (Some v, drop 2 tokens)
           | None \<Rightarrow> (normalizeVerb (tokens ! 0), drop 1 tokens)))"

text \<open>A stand-in for the handlers that are not modelled.\<close>

definition demoOthers :: "parsedCommand \<Rightarrow> GameState \<Rightarrow> response" where
  "demoOthers parsed s = (Inr (''['' @ verb parsed @ '']''), s)"

text \<open>The number of blanks in a phrase.\<close>

definition spaces :: "string \<Rightarrow> nat" where
  "spaces w = length (filter (\<lambda>c. c = CHR '' '') w)"

section \<open>The quest engine\<close>

definition objectiveFlag :: "string \<Rightarrow> string \<Rightarrow> string" where
  "objectiveFlag questId objectiveId = ''quest-'' @ questId @ ''-objective-'' @ objectiveId"

text \<open>The test the engine applies to one objective: its flag reads as a truthy value.\<close>

definition objectiveDone :: "GameState \<Rightarrow> quest \<Rightarrow> objective \<Rightarrow> bool" where
  "objectiveDone s q obj = truthy (getFlag s (objectiveFlag (quest_id q) (objective_id obj)))"

definition isComplete :: "quest \<Rightarrow> GameState \<Rightarrow> bool" where
  "isComplete q s =
     (if getQuestState s (quest_id q) \<noteq> Some ''active'' then False
      else case completionCheck q of
        Some chk \<Rightarrow> chk s
      | None \<Rightarrow>
          if objectives q = [] then False
          else if requireAllObjectives q
          then list_all (\<lambda>obj. \<not> required obj \<or> objectiveDone s q obj) (objectives q)
          else list_ex (\<lambda>obj. objectiveDone s q obj) (objectives q))"

definition getCompletionMessage :: "quest \<Rightarrow> string" where
  "getCompletionMessage q =
     orElse (completionMessage q) (''You have completed the quest: '' @ quest_name q @ ''!'')"

text \<open>An item reward goes straight into the active player's inventory.\<close>

definition grantReward :: "GameState \<Rightarrow> string \<Rightarrow> GameState" where
  "grantReward s iid =
     s\<lparr>uniqueItemLocations :=
         AList.update iid (Some (''inventory-'' @ tmpl (activePlayerId s)))
           (uniqueItemLocations s)\<rparr>"

text \<open>One round of the loop of \<open>checkQuestProgress\<close>, on the messages and the store so far.\<close>

definition checkQuest :: "string list \<times> GameState \<Rightarrow> quest \<Rightarrow> string list \<times> GameState" where
  "checkQuest acc q =
     (if getQuestState (snd acc) (quest_id q) \<noteq> Some ''active'' then acc
      else if isComplete q (snd acc)
      then
        let s1 = setQuestState (snd acc) (quest_id q) ''completed'';
            s2 = (if scoreReward q > 0 then addScore s1 (scoreReward q) None else s1);
            s3 = foldl grantReward s2 (itemRewards q);
            msgs1 = fst acc @ [getCompletionMessage q];
            msgs2 = (if isMainQuest q
                     then msgs1 @ [newline @ ''=== GAME COMPLETE ==='' @ newline @
                                   ''You have completed the main quest!'']
                     else msgs1)
        in (msgs2, s3)
      else acc)"

definition checkQuestProgress :: "game \<Rightarrow> GameState \<Rightarrow> string option \<times> GameState" where
  "checkQuestProgress g s =
     (let r = foldl checkQuest ([], s) (quests g) in
      (if fst r \<noteq> [] then Some (join (newline @ newline) (fst r)) else None, snd r))"

text \<open>
  In the words of the spec: every required objective of the quest has its flag set.
\<close>

definition allRequiredSet :: "GameState \<Rightarrow> quest \<Rightarrow> bool" where
  "allRequiredSet s q =
     list_all (\<lambda>obj. if required obj then objectiveDone s q obj else True) (objectives q)"

section \<open>A small world for the examples\<close>

text \<open>
  A cut-down version of the demo game: a forest clearing with a shed behind an exit that
  needs the rusty key, and a treasure room with a chest that needs the iron key.
\<close>

definition mkExit :: "string \<Rightarrow> string \<Rightarrow> string option \<Rightarrow> exit" where
  "mkExit dir dest req =
     \<lparr>direction = dir, leadsTo = dest, locked = False, lockedMessage = None,
      requiredItem = req, hidden = False, revealCondition = None\<rparr>"

definition mkItem :: "string \<Rightarrow> string \<Rightarrow> string \<Rightarrow> uniqueItem" where
  "mkItem iid name loc =
     \<lparr>item_id = iid, item_name = name, item_location = Some loc, takeable = True,
      visible = True, isContainer = False, contents = [], item_isLocked = False,
      isClosed = True, requiredKey = None, item_lockedMessage = None, closedMessage = None,
      takeText = None, dropText = None, cantTakeText = None, openText = None, tags = [],
      visibilityCondition = None\<rparr>"

definition treasureChest :: uniqueItem where
  "treasureChest =
     (mkItem ''treasure-chest'' ''Treasure Chest'' ''treasure-room'')
       \<lparr>takeable := False, isContainer := True,
        contents := [\<lparr>itemId = ''gold-coin'', quantity = 100\<rparr>, \<lparr>itemId = ''gem'', quantity = 25\<rparr>],
        item_isLocked := True, requiredKey := Some ''iron-key'',
        item_lockedMessage := Some ''The chest is locked with a heavy iron padlock.'',
        closedMessage := Some ''The chest is closed.''\<rparr>"

definition mkQuest :: "string \<Rightarrow> string \<Rightarrow> bool \<Rightarrow> string \<Rightarrow> objective list \<Rightarrow> quest" where
  "mkQuest qid name isMain init objs =
     \<lparr>quest_id = qid, quest_name = name, isMainQuest = isMain, initialState = init,
      objectives = objs, requireAllObjectives = True, scoreReward = 25, itemRewards = [],
      completionCheck = None, startMessage = None, completionMessage = None\<rparr>"

definition demoGame :: game where
  "demoGame =
     \<lparr>game_id = ''demo-game'',
      locations =
        [\<lparr>loc_id = ''forest-path'', loc_name = ''Forest Path'',
          loc_description = ''You are on a winding forest path.'',
          exits = [mkExit ''south'' ''forest-clearing'' None], requiresLight = False\<rparr>,
         \<lparr>loc_id = ''forest-clearing'', loc_name = ''Forest Clearing'',
          loc_description = ''You've reached a peaceful forest clearing.'',
          exits = [mkExit ''north'' ''forest-path'' None,
                   mkExit ''west'' ''old-shed'' (Some ''rusty-key'')],
          requiresLight = False\<rparr>,
         \<lparr>loc_id = ''old-shed'', loc_name = ''Old Shed'',
          loc_description = ''You are inside a weathered wooden shed.'',
          exits = [mkExit ''east'' ''forest-clearing'' None], requiresLight = False\<rparr>,
         \<lparr>loc_id = ''treasure-room'', loc_name = ''Treasure Room'',
          loc_description = ''You've found it!'',
          exits = [mkExit ''south'' ''forest-path'' None], requiresLight = False\<rparr>],
      genericItems =
        [\<lparr>generic_id = ''gold-coin'', generic_name = ''Gold Coin'', namePlural = ''Gold Coins''\<rparr>,
         \<lparr>generic_id = ''gem'', generic_name = ''Gem'', namePlural = ''Gems''\<rparr>],
      uniqueItems =
        [mkItem ''iron-key'' ''Iron Key'' ''forest-clearing'',
         mkItem ''rusty-key'' ''Rusty Key'' ''forest-path'',
         treasureChest],
      npcs = [],
      quests =
        [mkQuest ''explore-shed'' ''Explore the Old Shed'' False ''inactive''
           [\<lparr>objective_id = ''enter-shed'', objective_description = ''Enter the old shed'',
             required = True\<rparr>],
         mkQuest ''find-treasure'' ''Find the Lost Treasure'' True ''active''
           [\<lparr>objective_id = ''collect-treasure'',
             objective_description = ''Take the gold and gems from the treasure chest'',
             required = True\<rparr>]]\<rparr>"

text \<open>
  A store in the middle of a game: the player stands in the treasure room, the chest is
  open and holds what is left of its contents.
\<close>

definition demoStore :: GameState where
  "demoStore =
     \<lparr>gameId = ''demo'',
      players = [(''p1'', \<lparr>currentLocation = ''treasure-room'', score = 0, turnCount = 0,
                            visitedLocations = [''treasure-room''], playerFlags = []\<rparr>)],
      activePlayerId = Some ''p1'',
      uniqueItemLocations = [(''treasure-chest'', Some ''treasure-room'')],
      genericItemStacks =
        [(''treasure-chest'', [\<lparr>itemId = ''gold-coin'', quantity = 5\<rparr>, \<lparr>itemId = ''gem'', quantity = 2\<rparr>]),
         (''inventory-p1'', [\<lparr>itemId = ''gold-coin'', quantity = 3\<rparr>])],
      npcLocations = [],
      containerStates = [(''treasure-chest'', \<lparr>isLocked = False, isOpen = True\<rparr>)],
      exitStates = [],
      flags = [],
      questStates = []\<rparr>"

text \<open>
  Quests for the examples: one with two required objectives, one without objectives, one
  with a custom completion check that always holds, and one that is not active.
\<close>

definition mkObjective :: "string \<Rightarrow> objective" where
  "mkObjective oid = \<lparr>objective_id = oid, objective_description = oid, required = True\<rparr>"

definition gatherQuest :: quest where
  "gatherQuest =
     mkQuest ''gather'' ''Gather the keys'' False ''active''
       [mkObjective ''iron'', mkObjective ''rusty'']"

definition idleQuest :: quest where
  "idleQuest = mkQuest ''idle'' ''Nothing to do'' False ''active'' []"

definition customQuest :: quest where
  "customQuest =
     (mkQuest ''custom'' ''Custom check'' False ''active'' [mkObjective ''never''])
       \<lparr>completionCheck := Some (\<lambda>s. True)\<rparr>"

definition laterQuest :: quest where
  "laterQuest = mkQuest ''later'' ''Not yet discovered'' False ''inactive'' [mkObjective ''step'']"

definition questGame :: game where
  "questGame = demoGame\<lparr>quests := [gatherQuest, idleQuest, customQuest, laterQuest]\<rparr>"

definition questStore :: "(string \<times> jsval) list \<Rightarrow> GameState" where
  "questStore fl =
     demoStore\<lparr>questStates :=
                 [(''gather'', ''active''), (''idle'', ''active''), (''custom'', ''active''),
                  (''later'', ''inactive'')],
               flags := fl\<rparr>"


definition keyStore :: GameState where
  "keyStore =
     moveUniqueItem
       (moveUniqueItem (addPlayer (newGameState ''0'' demoGame None) ''p1'' ''treasure-room'')
          ''iron-key'' (Some ''inventory'') None)
       ''rusty-key'' (Some ''inventory'') None"

text \<open>The store of the treasure room with three more coins lying on the floor.\<close>

definition floorStore :: GameState where
  "floorStore =
     demoStore\<lparr>genericItemStacks :=
                 genericItemStacks demoStore
                   @ [(''treasure-room'', [\<lparr>itemId = ''gold-coin'', quantity = 3\<rparr>])]\<rparr>"

text \<open>
  Two stores for the limits of a transfer: one whose inventory stack holds
  \<open>2^53 = 9007199254740992\<close> coins, and one whose chest lists the gold coins twice.
\<close>

definition hoardStore :: GameState where
  "hoardStore =
     demoStore\<lparr>genericItemStacks :=
                 [(''treasure-chest'', [\<lparr>itemId = ''gold-coin'', quantity = 5\<rparr>]),
                  (''inventory-p1'', [\<lparr>itemId = ''gold-coin'', quantity = 9007199254740992\<rparr>])]\<rparr>"

definition twinStore :: GameState where
  "twinStore =
     demoStore\<lparr>genericItemStacks :=
                 [(''treasure-chest'', [\<lparr>itemId = ''gold-coin'', quantity = 3\<rparr>,
                                        \<lparr>itemId = ''gold-coin'', quantity = 5\<rparr>]),
                  (''inventory-p1'', [\<lparr>itemId = ''gold-coin'', quantity = 3\<rparr>])]\<rparr>"

text \<open>The same store as restored from a save that has no container states.\<close>

definition oldSaveStore :: GameState where
  "oldSaveStore = demoStore\<lparr>containerStates := []\<rparr>"



text \<open>The player in the treasure room carrying the rusty key only.\<close>

definition rustyOnlyStore :: GameState where
  "rustyOnlyStore =
     moveUniqueItem (addPlayer (newGameState ''0'' demoGame None) ''p1'' ''treasure-room'')
       ''rusty-key'' (Some ''inventory'') None"

text \<open>
  A world of three locations in which the exit north-east of the cave, declared locked,
  and the exit east of the location \<open>cave-north\<close> have the same exit key.
\<close>

definition caveGame :: game where
  "caveGame =
     \<lparr>game_id = ''cave-game'',
      locations =
        [\<lparr>loc_id = ''cave'', loc_name = ''Cave'', loc_description = ''A damp cave.'',
          exits = [(mkExit ''north-east'' ''vault'' None)\<lparr>locked := True\<rparr>],
          requiresLight = False\<rparr>,
         \<lparr>loc_id = ''cave-north'', loc_name = ''North of the Cave'',
          loc_description = ''A ledge north of the cave.'',
          exits = [mkExit ''east'' ''cave'' None], requiresLight = False\<rparr>,
         \<lparr>loc_id = ''vault'', loc_name = ''Vault'', loc_description = ''A dry vault.'',
          exits = [mkExit ''south-west'' ''cave'' None], requiresLight = False\<rparr>],
      genericItems = [], uniqueItems = [], npcs = [], quests = []\<rparr>"

section \<open>Generic-item transfers (C1)\<close>

subsection \<open>Rounding\<close>

lemma ulp_bounds: "0 < a \<Longrightarrow> 0 < ulp a \<and> ulp a \<le> a"
proof (induction a rule: ulp.induct)
  case (1 a)
  show ?case
  proof (cases "a < 9007199254740992")
    case True
    with 1(2) show ?thesis by (subst (1 2) ulp.simps) simp
  next
    case False
    then have "0 < a div 2" by simp
    with 1(1) False have "0 < ulp (a div 2) \<and> ulp (a div 2) \<le> a div 2" by simp
    moreover have "2 * (a div 2) \<le> a" by simp
    ultimately show ?thesis using False by (subst (1 2) ulp.simps) simp
  qed
qed

lemma ulp_small: "a < 9007199254740992 \<Longrightarrow> ulp a = 1"
  by (subst ulp.simps) simp

lemma roundDouble_safe: "isSafeInteger n \<Longrightarrow> roundDouble n = n"
  by (simp add: isSafeInteger_def roundDouble_def Let_def ulp_small mult_sgn_abs)

lemma roundDouble_0 [simp]: "roundDouble 0 = 0"
  by (simp add: roundDouble_def)

lemma roundDouble_pos: "0 < n \<Longrightarrow> 0 < roundDouble n"
proof -
  assume n: "0 < n"
  then have u: "0 < ulp n" "ulp n \<le> n" using ulp_bounds[of n] by simp_all
  then have "0 < n div ulp n" by (simp add: pos_imp_zdiv_pos_iff)
  then have "0 < (n div ulp n) * ulp n" "0 < (n div ulp n + 1) * ulp n" using u by simp_all
  then show ?thesis using n unfolding roundDouble_def Let_def by (simp split: if_splits)
qed

subsection \<open>Stack lists\<close>

lemma find_adjustFirst:
  "find (\<lambda>st. itemId st = iid) (adjustFirst iid d sts) =
     map_option (\<lambda>st. st\<lparr>quantity := roundDouble (quantity st + d)\<rparr>) (find (\<lambda>st. itemId st = iid) sts)"
  by (induction sts) auto

lemma find_adjustFirst_other:
  "j \<noteq> iid \<Longrightarrow> find (\<lambda>st. itemId st = j) (adjustFirst iid d sts) = find (\<lambda>st. itemId st = j) sts"
  by (induction sts) auto

lemma find_filter_same:
  "find (\<lambda>st. itemId st = iid) (filter (\<lambda>x. itemId x \<noteq> iid) sts) = None"
  by (induction sts) auto

lemma find_filter_other:
  "j \<noteq> iid \<Longrightarrow> find (\<lambda>st. itemId st = j) (filter (\<lambda>x. itemId x \<noteq> iid) sts) = find (\<lambda>st. itemId st = j) sts"
  by (induction sts) auto

lemma find_append_new:
  "find (\<lambda>st. itemId st = iid) sts = None \<Longrightarrow>
   find (\<lambda>st. itemId st = j) (sts @ [\<lparr>itemId = iid, quantity = q\<rparr>]) =
     (if j = iid then Some \<lparr>itemId = iid, quantity = q\<rparr> else find (\<lambda>st. itemId st = j) sts)"
  by (induction sts) auto

lemma filter_adjustFirst:
  "filter (\<lambda>x. itemId x \<noteq> iid) (adjustFirst iid d sts) = filter (\<lambda>x. itemId x \<noteq> iid) sts"
  by (induction sts) auto

lemma sum_adjustFirst:
  "find (\<lambda>st. itemId st = iid) sts = Some st \<Longrightarrow>
   sum_list (map quantity (filter (\<lambda>x. itemId x = j) (adjustFirst iid d sts))) =
     (if j = iid
      then sum_list (map quantity (filter (\<lambda>x. itemId x = j) sts)) - quantity st
             + roundDouble (quantity st + d)
      else sum_list (map quantity (filter (\<lambda>x. itemId x = j) sts)))"
  by (induction sts) (auto split: if_splits)

lemma sum_filter_other:
  "sum_list (map quantity (filter (\<lambda>x. itemId x = j) (filter (\<lambda>x. itemId x \<noteq> iid) sts))) =
     (if j = iid then 0 else sum_list (map quantity (filter (\<lambda>x. itemId x = j) sts)))"
  by (induction sts) auto

lemma sum_find_None:
  "find (\<lambda>st. itemId st = iid) sts = None \<Longrightarrow>
   sum_list (map quantity (filter (\<lambda>x. itemId x = iid) sts)) = 0"
  by (induction sts) (auto split: if_splits)

lemma sum_listed_once:
  "find (\<lambda>st. itemId st = iid) sts = Some st \<Longrightarrow>
   length (filter (\<lambda>x. itemId x = iid) sts) \<le> 1 \<Longrightarrow>
   sum_list (map quantity (filter (\<lambda>x. itemId x = iid) sts)) = quantity st"
  by (induction sts) (auto split: if_splits)

lemma positive_adjustFirst:
  "list_all (\<lambda>st. 0 < quantity st) sts \<Longrightarrow> find (\<lambda>st. itemId st = iid) sts = Some st \<Longrightarrow>
   0 < roundDouble (quantity st + d) \<Longrightarrow>
   list_all (\<lambda>st. 0 < quantity st) (adjustFirst iid d sts)"
  by (induction sts) (auto split: if_splits)

lemma positive_found:
  "list_all (\<lambda>st. 0 < quantity st) sts \<Longrightarrow> find (\<lambda>st. itemId st = iid) sts = Some st \<Longrightarrow>
   0 < quantity st"
  by (induction sts) (auto split: if_splits)

lemma list_all_update:
  "list_all P al \<Longrightarrow> P (k, v) \<Longrightarrow> list_all P (AList.update k v al)"
  by (induction al) auto

lemma positive_lookup:
  "stacksPositive s \<Longrightarrow> map_of (genericItemStacks s) c = Some sts \<Longrightarrow>
   list_all (\<lambda>st. 0 < quantity st) sts"
  unfolding stacksPositive_def by (auto simp: list_all_iff dest!: map_of_SomeD)

subsection \<open>Removal and addition\<close>

lemma resolveContainer_upd [simp]:
  "resolveContainer (s\<lparr>genericItemStacks := g\<rparr>) c p = resolveContainer s c p"
  by (simp add: resolveContainer_def inventoryKey_def)

lemma transfer_resolve [simp]:
  "resolveContainer (snd (removeGenericItems s src iid q p)) c p' = resolveContainer s c p'"
  by (auto simp: removeGenericItems_def Let_def resolveContainer_def inventoryKey_def split: option.splits)

lemma remove_fail:
  "\<not> sourceHolds s src iid q p \<Longrightarrow> removeGenericItems s src iid q p = (False, s)"
  by (auto simp: sourceHolds_def getGenericItemStack_def removeGenericItems_def split: option.splits)

lemma remove_ok:
  assumes "sourceHolds s src iid q p"
  shows "fst (removeGenericItems s src iid q p)"
    and "getGenericItemQuantity (snd (removeGenericItems s src iid q p)) src iid p
           = roundDouble (getGenericItemQuantity s src iid p - q)"
    and "resolveContainer s c p \<noteq> resolveContainer s src p \<or> j \<noteq> iid \<Longrightarrow>
      getGenericItemQuantity (snd (removeGenericItems s src iid q p)) c j p = getGenericItemQuantity s c j p"
  using assms
  by (auto simp: sourceHolds_def getGenericItemStack_def getGenericItemQuantity_def removeGenericItems_def Let_def
     AList.update_conv' find_adjustFirst find_filter_same find_filter_other find_adjustFirst_other split: option.splits)

lemma remove_total:
  assumes "sourceHolds s src iid q p"
  shows "totalQuantity (snd (removeGenericItems s src iid q p)) c j p =
           (if resolveContainer s c p = resolveContainer s src p \<and> j = iid
            then (if roundDouble (getGenericItemQuantity s src iid p - q) = 0 then 0
                  else totalQuantity s src iid p - getGenericItemQuantity s src iid p
                         + roundDouble (getGenericItemQuantity s src iid p - q))
            else totalQuantity s c j p)"
  using assms
  by (auto simp: sourceHolds_def getGenericItemStack_def getGenericItemQuantity_def removeGenericItems_def Let_def
     totalQuantity_def getGenericItemStacksAt_def AList.update_conv' sum_adjustFirst sum_filter_other
     filter_adjustFirst simp del: filter_filter split: option.splits)

lemma total_listed_once:
  "sourceHolds s src iid q p \<Longrightarrow> listedOnce s src iid p \<Longrightarrow>
   totalQuantity s src iid p = getGenericItemQuantity s src iid p"
  by (auto simp: sourceHolds_def listedOnce_def getGenericItemStack_def getGenericItemQuantity_def
     totalQuantity_def getGenericItemStacksAt_def sum_listed_once split: option.splits)

lemma add_total:
  assumes "roundDouble (getGenericItemQuantity s dst iid p + q) = getGenericItemQuantity s dst iid p + q"
  shows "totalQuantity (addGenericItems s dst iid q p) c j p =
           (if resolveContainer s c p = resolveContainer s dst p \<and> j = iid
            then totalQuantity s c j p + q else totalQuantity s c j p)"
  using assms
  by (auto simp: getGenericItemStack_def getGenericItemQuantity_def addGenericItems_def Let_def
     totalQuantity_def getGenericItemStacksAt_def AList.update_conv' sum_adjustFirst sum_find_None
     split: option.splits)

lemma remove_positive:
  assumes "stacksPositive s" and "sourceHolds s src iid q p"
  shows "stacksPositive (snd (removeGenericItems s src iid q p))"
proof -
  from assms(2) obtain sts st where l: "map_of (genericItemStacks s) (resolveContainer s src p) = Some sts"
    and f: "find (\<lambda>st. itemId st = iid) sts = Some st" and q: "q \<le> quantity st"
    by (auto simp: sourceHolds_def getGenericItemStack_def split: option.splits)
  have pos: "list_all (\<lambda>st. 0 < quantity st) sts" using assms(1) l by (rule positive_lookup)
  have a: "list_all (\<lambda>st. 0 < quantity st) (filter (\<lambda>x. itemId x \<noteq> iid) (adjustFirst iid (- q) sts))"
    using pos by (simp add: filter_adjustFirst list_all_iff)
  have b: "list_all (\<lambda>st. 0 < quantity st) (adjustFirst iid (- q) sts)"
    if "roundDouble (quantity st - q) \<noteq> 0"
  proof -
    from that have "quantity st - q \<noteq> 0" by auto
    with q have "0 < quantity st - q" by simp
    then have "0 < roundDouble (quantity st + - q)" using roundDouble_pos by simp
    with pos f show ?thesis by (rule positive_adjustFirst)
  qed
  show ?thesis
    using assms(1) l f q a b
    by (auto simp: removeGenericItems_def Let_def stacksPositive_def intro!: list_all_update)
qed

lemma add_positive:
  assumes "stacksPositive s" and "0 < q"
  shows "stacksPositive (addGenericItems s dst iid q p)"
proof -
  let ?c = "resolveContainer s dst p"
  show ?thesis
  proof (cases "map_of (genericItemStacks s) ?c")
    case None
    then show ?thesis
      using assms by (auto simp: addGenericItems_def Let_def stacksPositive_def intro!: list_all_update)
  next
    case (Some sts)
    then have pos: "list_all (\<lambda>st. 0 < quantity st) sts" using assms(1) by (auto dest: positive_lookup)
    show ?thesis
    proof (cases "find (\<lambda>st. itemId st = iid) sts")
      case None
      then show ?thesis
        using assms Some pos
        by (auto simp: addGenericItems_def Let_def stacksPositive_def intro!: list_all_update)
    next
      case (Some st)
      with pos have "0 < quantity st" by (rule positive_found)
      with assms(2) have "0 < roundDouble (quantity st + q)" by (intro roundDouble_pos) simp
      with pos Some have "list_all (\<lambda>st. 0 < quantity st) (adjustFirst iid q sts)"
        by (rule positive_adjustFirst)
      then show ?thesis
        using assms \<open>map_of (genericItemStacks s) ?c = Some sts\<close> Some
        by (auto simp: addGenericItems_def Let_def stacksPositive_def intro!: list_all_update)
    qed
  qed
qed

text \<open>
  Claim C1, as amended. A transfer whose source holds fewer than \<open>q\<close> of the kind, or
  no stack of it, returns \<open>false\<close> and leaves the store as it is, and a transfer whose
  source stack holds at least \<open>q\<close> returns \<open>true\<close>; both hold for every store and
  every \<open>q\<close>. When the source place lists the kind once and the quantity of the source
  stack before and after, and that of the destination stack after, are safe integers,
  the source loses exactly \<open>q\<close> and the destination gains exactly \<open>q\<close> (nothing
  changes in total when both name the same place). When \<open>q\<close> is positive and every
  listed stack is positive before, every listed stack is positive afterwards, so a stack
  that reached 0 is gone from its list.
\<close>

theorem transferGenericItems_conserves:
  "(\<not> sourceHolds s src iid q p \<longrightarrow> transferGenericItems s src dst iid q p = (False, s)) \<and>
   (sourceHolds s src iid q p \<longrightarrow> fst (transferGenericItems s src dst iid q p)) \<and>
   (sourceHolds s src iid q p \<and> listedOnce s src iid p \<and>
    isSafeInteger (getGenericItemQuantity s src iid p) \<and>
    isSafeInteger (getGenericItemQuantity s src iid p - q) \<and>
    isSafeInteger (getGenericItemQuantity s dst iid p + q) \<longrightarrow>
      (if resolveContainer s src p = resolveContainer s dst p
       then totalQuantity (snd (transferGenericItems s src dst iid q p)) src iid p
              = totalQuantity s src iid p
       else totalQuantity (snd (transferGenericItems s src dst iid q p)) src iid p
              = totalQuantity s src iid p - q \<and>
            totalQuantity (snd (transferGenericItems s src dst iid q p)) dst iid p
              = totalQuantity s dst iid p + q)) \<and>
   (sourceHolds s src iid q p \<and> 0 < q \<and> stacksPositive s \<longrightarrow>
      stacksPositive (snd (transferGenericItems s src dst iid q p)))"
proof (cases "sourceHolds s src iid q p")
  case False
  then show ?thesis by (simp add: transferGenericItems_def remove_fail)
next
  case True
  let ?c = "getGenericItemQuantity s src iid p"
  obtain s1 where r: "removeGenericItems s src iid q p = (True, s1)"
    using remove_ok(1)[OF True] by (cases "removeGenericItems s src iid q p") auto
  have s1: "s1 = snd (removeGenericItems s src iid q p)" using r by simp
  have t: "transferGenericItems s src dst iid q p = (True, addGenericItems s1 dst iid q p)"
    by (simp add: transferGenericItems_def r)
  have res: "\<And>c. resolveContainer s1 c p = resolveContainer s c p" unfolding s1 by simp
  have pos: "stacksPositive (addGenericItems s1 dst iid q p)" if "0 < q" "stacksPositive s"
    unfolding s1 using that True by (intro add_positive remove_positive)
  have cons: "if resolveContainer s src p = resolveContainer s dst p
       then totalQuantity (addGenericItems s1 dst iid q p) src iid p = totalQuantity s src iid p
       else totalQuantity (addGenericItems s1 dst iid q p) src iid p = totalQuantity s src iid p - q \<and>
            totalQuantity (addGenericItems s1 dst iid q p) dst iid p = totalQuantity s dst iid p + q"
    if once: "listedOnce s src iid p" and sc: "isSafeInteger ?c" and sr: "isSafeInteger (?c - q)"
      and sd: "isSafeInteger (getGenericItemQuantity s dst iid p + q)"
  proof -
    have tot: "totalQuantity s src iid p = ?c" using True once by (rule total_listed_once)
    have rq: "roundDouble (?c - q) = ?c - q" using sr by (rule roundDouble_safe)
    have t1: "totalQuantity s1 src iid p = totalQuantity s src iid p - q"
      unfolding s1 using remove_total[OF True, of src iid] by (simp add: rq tot)
    have q1: "getGenericItemQuantity s1 src iid p = ?c - q"
      unfolding s1 using remove_ok(2)[OF True] by (simp add: rq)
    show ?thesis
    proof (cases "resolveContainer s src p = resolveContainer s dst p")
      case same: True
      then have "getGenericItemQuantity s1 dst iid p = getGenericItemQuantity s1 src iid p"
        by (simp add: getGenericItemQuantity_def getGenericItemStack_def res)
      then have "roundDouble (getGenericItemQuantity s1 dst iid p + q)
                      = getGenericItemQuantity s1 dst iid p + q"
        using roundDouble_safe[OF sc] by (simp add: q1)
      then show ?thesis using same t1 by (simp add: add_total res)
    next
      case other: False
      have "getGenericItemQuantity s1 dst iid p = getGenericItemQuantity s dst iid p"
        unfolding s1 using remove_ok(3)[OF True, of dst iid] other by simp
      then have "roundDouble (getGenericItemQuantity s1 dst iid p + q)
                      = getGenericItemQuantity s1 dst iid p + q"
        using roundDouble_safe[OF sd] by simp
      moreover have "totalQuantity s1 dst iid p = totalQuantity s dst iid p"
        unfolding s1 using remove_total[OF True, of dst iid] other by simp
      ultimately show ?thesis using other t1 by (simp add: add_total res)
    qed
  qed
  show ?thesis using True pos cons by (simp add: t)
qed

text \<open>
  Five of the chest's five gold coins go to an inventory holding three; six are
  refused.
\<close>

theorem transferGenericItems_conserves_witness:
  "sourceHolds demoStore ''treasure-chest'' ''gold-coin'' 5 None \<and>
   listedOnce demoStore ''treasure-chest'' ''gold-coin'' None \<and>
   isSafeInteger (getGenericItemQuantity demoStore ''treasure-chest'' ''gold-coin'' None) \<and>
   isSafeInteger (getGenericItemQuantity demoStore ''treasure-chest'' ''gold-coin'' None - 5) \<and>
   isSafeInteger (getGenericItemQuantity demoStore ''inventory'' ''gold-coin'' None + 5) \<and>
   (0::int) < 5 \<and> stacksPositive demoStore \<and>
   transferGenericItems demoStore ''treasure-chest'' ''inventory'' ''gold-coin'' 5 None =
     (True, demoStore\<lparr>genericItemStacks :=
        [(''treasure-chest'', [\<lparr>itemId = ''gem'', quantity = 2\<rparr>]),
         (''inventory-p1'', [\<lparr>itemId = ''gold-coin'', quantity = 8\<rparr>])]\<rparr>) \<and>
   totalQuantity (snd (transferGenericItems demoStore ''treasure-chest'' ''inventory'' ''gold-coin'' 5 None))
       ''treasure-chest'' ''gold-coin'' None
     = totalQuantity demoStore ''treasure-chest'' ''gold-coin'' None - 5 \<and>
   totalQuantity (snd (transferGenericItems demoStore ''treasure-chest'' ''inventory'' ''gold-coin'' 5 None))
       ''inventory'' ''gold-coin'' None
     = totalQuantity demoStore ''inventory'' ''gold-coin'' None + 5 \<and>
   stacksPositive (snd (transferGenericItems demoStore ''treasure-chest'' ''inventory'' ''gold-coin'' 5 None)) \<and>
   \<not> sourceHolds demoStore ''treasure-chest'' ''gold-coin'' 6 None \<and>
   transferGenericItems demoStore ''treasure-chest'' ''inventory'' ''gold-coin'' 6 None = (False, demoStore)"
proof -
  have h: "sourceHolds demoStore ''treasure-chest'' ''gold-coin'' 5 None"
    "listedOnce demoStore ''treasure-chest'' ''gold-coin'' None"
    "isSafeInteger (getGenericItemQuantity demoStore ''treasure-chest'' ''gold-coin'' None)"
    "isSafeInteger (getGenericItemQuantity demoStore ''treasure-chest'' ''gold-coin'' None - 5)"
    "isSafeInteger (getGenericItemQuantity demoStore ''inventory'' ''gold-coin'' None + 5)"
    "stacksPositive demoStore"
    "resolveContainer demoStore ''treasure-chest'' None \<noteq> resolveContainer demoStore ''inventory'' None"
    "\<not> sourceHolds demoStore ''treasure-chest'' ''gold-coin'' 6 None"
    by code_simp+
  have v: "transferGenericItems demoStore ''treasure-chest'' ''inventory'' ''gold-coin'' 5 None =
     (True, demoStore\<lparr>genericItemStacks :=
        [(''treasure-chest'', [\<lparr>itemId = ''gem'', quantity = 2\<rparr>]),
         (''inventory-p1'', [\<lparr>itemId = ''gold-coin'', quantity = 8\<rparr>])]\<rparr>)"
    by code_simp
  have a: "totalQuantity (snd (transferGenericItems demoStore ''treasure-chest'' ''inventory'' ''gold-coin'' 5 None))
       ''treasure-chest'' ''gold-coin'' None
     = totalQuantity demoStore ''treasure-chest'' ''gold-coin'' None - 5 \<and>
   totalQuantity (snd (transferGenericItems demoStore ''treasure-chest'' ''inventory'' ''gold-coin'' 5 None))
       ''inventory'' ''gold-coin'' None
     = totalQuantity demoStore ''inventory'' ''gold-coin'' None + 5"
    and b: "stacksPositive (snd (transferGenericItems demoStore ''treasure-chest'' ''inventory'' ''gold-coin'' 5 None))"
    using transferGenericItems_conserves [where q = 5 and s = demoStore and src = "''treasure-chest''"
          and iid = "''gold-coin''" and p = None and dst = "''inventory''"] h
    by simp_all
  have c: "transferGenericItems demoStore ''treasure-chest'' ''inventory'' ''gold-coin'' 6 None = (False, demoStore)"
    using transferGenericItems_conserves [where q = 6 and s = demoStore and src = "''treasure-chest''"
          and iid = "''gold-coin''" and p = None and dst = "''inventory''"] h(8)
    by simp
  show ?thesis using h(1-6,8) v a b c by simp
qed

text \<open>
  The claim as stated, for every quantity and every store, fails in three ways. Moving
  \<open>-3\<close> gold coins from the chest (5 coins) to an inventory holding 3 succeeds, the
  chest then holds 8, and the inventory stack reaches 0 and stays in its list. Moving
  one coin from the chest to an inventory stack of \<open>2^53\<close> coins takes the coin from
  the chest and leaves the inventory stack as it was, the sum being rounded. Moving three
  coins out of a chest that lists 3 coins and again 5 coins removes both stacks, eight
  coins, and adds three to the inventory.
\<close>

theorem transferGenericItems_counterexample:
  "transferGenericItems demoStore ''treasure-chest'' ''inventory'' ''gold-coin'' (- 3) None =
     (True, demoStore\<lparr>genericItemStacks :=
        [(''treasure-chest'', [\<lparr>itemId = ''gold-coin'', quantity = 8\<rparr>, \<lparr>itemId = ''gem'', quantity = 2\<rparr>]),
         (''inventory-p1'', [\<lparr>itemId = ''gold-coin'', quantity = 0\<rparr>])]\<rparr>) \<and>
   sourceHolds hoardStore ''treasure-chest'' ''gold-coin'' 1 None \<and>
   transferGenericItems hoardStore ''treasure-chest'' ''inventory'' ''gold-coin'' 1 None =
     (True, hoardStore\<lparr>genericItemStacks :=
        [(''treasure-chest'', [\<lparr>itemId = ''gold-coin'', quantity = 4\<rparr>]),
         (''inventory-p1'', [\<lparr>itemId = ''gold-coin'', quantity = 9007199254740992\<rparr>])]\<rparr>) \<and>
   sourceHolds twinStore ''treasure-chest'' ''gold-coin'' 3 None \<and>
   totalQuantity twinStore ''treasure-chest'' ''gold-coin'' None = 8 \<and>
   transferGenericItems twinStore ''treasure-chest'' ''inventory'' ''gold-coin'' 3 None =
     (True, twinStore\<lparr>genericItemStacks :=
        [(''treasure-chest'', []),
         (''inventory-p1'', [\<lparr>itemId = ''gold-coin'', quantity = 6\<rparr>])]\<rparr>)"
  by code_simp

section \<open>Serialization round trip (C8)\<close>

lemma js_or_None: "x \<noteq> Some [] \<Longrightarrow> js_or x None = x"
  by (cases x) (auto simp: js_or_def truthyS_def)

text \<open>
  What the round trip does to any store: every field comes back as it was, except that
  an active player id that is the empty string comes back as \<open>null\<close>.
\<close>

lemma toJSON_roundtrip_any:
  "newGameState now g (Some (toJSON s)) = s\<lparr>activePlayerId := js_or (activePlayerId s) None\<rparr>"
  by (simp add: newGameState_def restoreGameState_def toJSON_def orEmpty_def truthyS_def)

text \<open>
  Claim C8. Serializing a store with \<open>toJSON\<close> and constructing a new store from the
  snapshot gives the same store: the same item locations, stacks, container, exit and
  quest states, flags, active player and player records. The active player id is
  \<open>null\<close> or a player id, which is not the empty string.
\<close>

theorem toJSON_roundtrip:
  assumes "activePlayerId s \<noteq> Some []"
  shows "newGameState now g (Some (toJSON s)) = s"
  using assms by (simp add: toJSON_roundtrip_any js_or_None)

theorem toJSON_roundtrip_witness:
  "activePlayerId demoStore \<noteq> Some [] \<and>
   newGameState ''1700000000000'' demoGame (Some (toJSON demoStore)) = demoStore"
  using toJSON_roundtrip [of demoStore "''1700000000000''" demoGame]
  by (simp add: demoStore_def)

section \<open>Initial exit states (C10)\<close>

lemma exitStates_initLocation:
  "exitStates (initLocation s l) =
     foldl (\<lambda>m kv. AList.update (fst kv) (snd kv) m) (exitStates s) (exitEntries l)"
proof -
  have "exitStates (foldl (initExit lid) s es) =
        foldl (\<lambda>m kv. AList.update (fst kv) (snd kv) m) (exitStates s)
          (map (\<lambda>e. (exitKey lid (direction e), startsLocked e)) es)" for lid es
    by (induction es arbitrary: s) (simp_all add: initExit_def startsLocked_def)
  then show ?thesis by (simp add: initLocation_def exitEntries_def)
qed

lemma exitStates_locations:
  "exitStates (foldl initLocation s ls) =
     foldl (\<lambda>m kv. AList.update (fst kv) (snd kv) m) (exitStates s) (concat (map exitEntries ls))"
  by (induction ls arbitrary: s) (simp_all add: exitStates_initLocation)

lemma map_of_foldl_update:
  "map_of (foldl (\<lambda>m kv. AList.update (fst kv) (snd kv) m) m0 kvs) = map_of m0 ++ map_of (rev kvs)"
  by (induction kvs arbitrary: m0) (simp_all add: AList.update_conv' map_add_upd_left)

lemma exitStates_uniqueItems [simp]: "exitStates (foldl initUniqueItem s xs) = exitStates s"
  by (induction xs arbitrary: s) (simp_all add: initUniqueItem_def Let_def split: option.splits)

lemma exitStates_npcs [simp]: "exitStates (foldl initNpc s xs) = exitStates s"
  by (induction xs arbitrary: s) (simp_all add: initNpc_def split: option.splits)

lemma exitStates_quests [simp]: "exitStates (foldl initQuest s xs) = exitStates s"
  by (induction xs arbitrary: s) (simp_all add: initQuest_def)

lemma exitStates_fresh:
  "map_of (exitStates (freshGameState g)) = map_of (rev (concat (map exitEntries (locations g))))"
  by (simp add: freshGameState_def Let_def exitStates_locations map_of_foldl_update)

lemma map_fst_exitEntries: "map fst (concat (map exitEntries (locations g))) = exitKeys g"
  by (simp add: exitKeys_def exitEntries_def map_concat comp_def)

text \<open>
  When the declared exits have pairwise different exit keys, every declared exit starts
  locked exactly when its static \<open>locked\<close> flag is set or it declares a required item.
\<close>

lemma fresh_exit_locked_distinct_keys:
  assumes "distinct (exitKeys g)" and "l \<in> set (locations g)" and "e \<in> set (exits l)"
  shows "isExitLocked (newGameState now g None) (loc_id l) (direction e)
           = (locked e \<or> truthyS (requiredItem e))"
proof -
  let ?kvs = "concat (map exitEntries (locations g))"
  have "(exitKey (loc_id l) (direction e), startsLocked e) \<in> set ?kvs"
    using assms(2,3) by (auto simp: exitEntries_def)
  moreover have "distinct (map fst (rev ?kvs))"
    using assms(1) by (simp add: map_fst_exitEntries rev_map[symmetric])
  ultimately have "map_of (rev ?kvs) (exitKey (loc_id l) (direction e)) = Some (startsLocked e)"
    by (intro map_of_is_SomeI) auto
  then show ?thesis
    by (simp add: newGameState_def isExitLocked_def exitStates_fresh startsLocked_def)
qed

text \<open>
  In the demo world the keys are different. The exit west of the forest clearing
  declares the rusty key and no \<open>locked\<close> flag: it starts locked. The exit north
  declares neither: it starts unlocked.
\<close>

lemma fresh_exit_locked_demo:
  "distinct (exitKeys demoGame) \<and>
   isExitLocked (newGameState ''0'' demoGame None) ''forest-clearing'' ''west'' \<and>
   \<not> isExitLocked (newGameState ''0'' demoGame None) ''forest-clearing'' ''north''"
  by code_simp

text \<open>
  Claim C10 fails for declared exits that share a key. The constructor keys an exit by
  the location id and the direction joined with a hyphen, which does not tell the exit
  \<open>north-east\<close> of \<open>cave\<close> from the exit \<open>east\<close> of \<open>cave-north\<close>. The first is
  declared locked, the second, declared later, is not: the fresh store has one entry for
  both, and the exit north-east of the cave starts unlocked.
\<close>

theorem fresh_exit_key_collision:
  "map (\<lambda>l. (loc_id l, map (\<lambda>e. (direction e, locked e, requiredItem e)) (exits l)))
       (locations caveGame) =
     [(''cave'', [(''north-east'', True, None)]),
      (''cave-north'', [(''east'', False, None)]),
      (''vault'', [(''south-west'', False, None)])] \<and>
   exitKey ''cave'' ''north-east'' = ''cave-north-east'' \<and>
   exitKey ''cave-north'' ''east'' = ''cave-north-east'' \<and>
   exitStates (newGameState ''0'' caveGame None) =
     [(''cave-north-east'', False), (''vault-south-west'', False)] \<and>
   \<not> isExitLocked (newGameState ''0'' caveGame None) ''cave'' ''north-east''"
  by code_simp

section \<open>Movement (C2)\<close>

lemma js_or_None_left [simp]: "js_or None x = x"
  by (simp add: js_or_def truthyS_def)

lemma players_getLocationDescription [simp]:
  "players (snd (getLocationDescription g s)) = players s"
  "activePlayerId (snd (getLocationDescription g s)) = activePlayerId s"
  "exitStates (snd (getLocationDescription g s)) = exitStates s"
  by (auto simp: getLocationDescription_def Let_def checkQuestDiscovery_def setQuestState_def
      split: option.splits)


lemma unlockExit_frame [simp]:
  "getActivePlayer (unlockExit s l d) = getActivePlayer s"
  "getCurrentLocation (unlockExit s l d) = getCurrentLocation s"
  "isExitLocked (unlockExit s l d) l d = False"
  by (simp_all add: unlockExit_def getActivePlayer_def getCurrentLocation_def isExitLocked_def
      AList.update_conv')



section \<open>Quantities in TAKE and DROP (C5)\<close>

text \<open>Without a quantity, each of the three paths takes the quantity \<open>'all'\<close>.\<close>

lemma takeFromContainer_default_all:
  "takeFromContainer g s obj c None = takeFromContainer g s obj c (Some All)"
  by (simp add: takeFromContainer_def split: option.splits prod.splits)

lemma cmdTake_default_all:
  "cmdTake g s obj fromObject prep None = cmdTake g s obj fromObject prep (Some All)"
  by (simp add: cmdTake_def takeFromContainer_default_all split: option.splits prod.splits)

lemma cmdDrop_default_all: "cmdDrop g s obj None = cmdDrop g s obj (Some All)"
  by (simp add: cmdDrop_def split: option.splits prod.splits)

text \<open>
  Asking a container, or the inventory, for more than it holds is answered with the
  quantity it holds, and nothing is transferred.
\<close>

lemma takeFromContainer_too_many:
  assumes "findUniqueItemAtLocation g s c = Some u" and "isContainer u"
    and "isContainerOpen s (item_id u)"
    and "find (matchesGeneric obj) (knownStacks g (getGenericItemStacksAt s (item_id u) None))
           = Some (item, st)"
    and "quantity st < n"
  shows "takeFromContainer g s obj c (Some (Num n)) =
           (Inr (''There are only '' @ numToString (quantity st) @ '' '' @
                 getDisplayName item (quantity st) @ '' in the '' @ item_name u @ ''.''), s)"
  using assms by (simp add: takeFromContainer_def)

lemma cmdDrop_too_many:
  assumes "obj \<noteq> []" and "findUniqueItemInInventory g s obj = None"
    and "findGenericItemInInventory g s obj = Some (item, st)"
    and "quantity st < n"
  shows "cmdDrop g s (Some obj) (Some (Num n)) =
           (Inr (''You only have '' @ numToString (quantity st) @ '' '' @
                 getDisplayName item (quantity st) @ ''.''), s)"
  using assms by (simp add: cmdDrop_def truthyS_def tmpl_def)

text \<open>
  Claim C5 fails on the third path, TAKE from the current location. Three gold coins lie
  on the floor of the treasure room: "take 5 gold coin" takes the three and reports
  success, where "take 9 gold coin from chest" and "drop 5 gold coin" answer with
  the available quantity and leave the store as it is.
\<close>

theorem cmdTake_caps_quantity:
  "getGenericItemStacksAt floorStore ''treasure-room'' None = [\<lparr>itemId = ''gold-coin'', quantity = 3\<rparr>] \<and>
   parseCommand demoGame demoOthers decimalToken ''take 5 gold coin'' floorStore =
     (Inr \<lparr>response = ''You take 3 Gold Coins.'', consumesTurn = True\<rparr>,
      floorStore\<lparr>genericItemStacks :=
        [(''treasure-chest'', [\<lparr>itemId = ''gold-coin'', quantity = 5\<rparr>, \<lparr>itemId = ''gem'', quantity = 2\<rparr>]),
         (''inventory-p1'', [\<lparr>itemId = ''gold-coin'', quantity = 6\<rparr>]),
         (''treasure-room'', [])]\<rparr>) \<and>
   cmdTake demoGame floorStore (Some ''gold coin'') None None (Some (Num 5)) =
     (Inr ''You take 3 Gold Coins.'',
      snd (parseCommand demoGame demoOthers decimalToken ''take 5 gold coin'' floorStore)) \<and>
   parseCommand demoGame demoOthers decimalToken ''take 9 gold coin from chest'' floorStore =
     (Inr \<lparr>response = ''There are only 5 Gold Coins in the Treasure Chest.'', consumesTurn = True\<rparr>,
      floorStore) \<and>
   parseCommand demoGame demoOthers decimalToken ''drop 5 gold coin'' floorStore =
     (Inr \<lparr>response = ''You only have 3 Gold Coins.'', consumesTurn = True\<rparr>, floorStore)"
  by code_simp

section \<open>Unlocking with the wrong key (C7)\<close>

text \<open>
  Claim C7, as amended. UNLOCK on a locked container that declares a required key, with
  an explicit key clause that matches at least one unique item of the active player's
  inventory and matches no inventory item whose id is the required key, returns "None
  of your keys fit the lock." and leaves the store as it is; the container stays
  locked.
\<close>

theorem cmdUnlock_wrong_key:
  assumes "obj \<noteq> []" and "keyName \<noteq> []" and "prep \<noteq> []"
    and "findUniqueItemAtLocation g s obj = Some c" and "isContainer c"
    and "isContainerLocked s (item_id c)" and "truthyS (requiredKey c)"
    and "matchingKeys g s keyName \<noteq> []"
    and "list_all (\<lambda>k. item_id k \<noteq> tmpl (requiredKey c)) (matchingKeys g s keyName)"
  shows "cmdUnlock g s (Some obj) (Some keyName) (Some prep) =
           (Inr ''None of your keys fit the lock.'', s) \<and>
         isContainerLocked (snd (cmdUnlock g s (Some obj) (Some keyName) (Some prep))) (item_id c)"
proof -
  from assms(8) obtain k ks where m: "matchingKeys g s keyName = k # ks"
    by (cases "matchingKeys g s keyName") auto
  from assms(9) have "find (\<lambda>k. item_id k = tmpl (requiredKey c)) (k # ks) = None"
    unfolding m by (simp add: find_None_iff list_all_iff)
  then have "cmdUnlock g s (Some obj) (Some keyName) (Some prep) =
           (Inr ''None of your keys fit the lock.'', s)"
    using assms(1-7) m by (simp add: cmdUnlock_def truthyS_def tmpl_def)
  with assms(6) show ?thesis by simp
qed

text \<open>Carrying the rusty key only, "unlock chest with key" fits nothing.\<close>

theorem cmdUnlock_wrong_key_witness:
  "map_option item_id (findUniqueItemAtLocation demoGame rustyOnlyStore ''chest'') = Some ''treasure-chest'' \<and>
   isContainerLocked rustyOnlyStore ''treasure-chest'' \<and>
   map item_id (matchingKeys demoGame rustyOnlyStore ''key'') = [''rusty-key''] \<and>
   cmdUnlock demoGame rustyOnlyStore (Some ''chest'') (Some ''key'') (Some ''with'') =
     (Inr ''None of your keys fit the lock.'', rustyOnlyStore) \<and>
   isContainerLocked (snd (cmdUnlock demoGame rustyOnlyStore (Some ''chest'') (Some ''key'') (Some ''with'')))
     ''treasure-chest''"
proof -
  have "case findUniqueItemAtLocation demoGame rustyOnlyStore ''chest'' of
          None \<Rightarrow> False
        | Some c \<Rightarrow> item_id c = ''treasure-chest'' \<and> isContainer c \<and>
            requiredKey c = Some ''iron-key''"
    by code_simp
  then obtain c where c: "findUniqueItemAtLocation demoGame rustyOnlyStore ''chest'' = Some c"
    "item_id c = ''treasure-chest''" "isContainer c" "requiredKey c = Some ''iron-key''"
    by (auto split: option.splits)
  have e: "isContainerLocked rustyOnlyStore ''treasure-chest''"
    "map item_id (matchingKeys demoGame rustyOnlyStore ''key'') = [''rusty-key'']"
    "list_all (\<lambda>k. item_id k \<noteq> ''iron-key'') (matchingKeys demoGame rustyOnlyStore ''key'')"
    by code_simp+
  then have ne: "matchingKeys demoGame rustyOnlyStore ''key'' \<noteq> []" by auto
  show ?thesis
    using cmdUnlock_wrong_key [of "''chest''" "''key''" "''with''" demoGame rustyOnlyStore c] c e ne
    by (simp add: truthyS_def tmpl_def)
qed

text \<open>
  The claim as stated asks only that the clause matches some inventory item that is not
  the required key. Carrying both keys, the clause "key" matches the rusty key, which
  is not the required one, and the iron key as well: the code picks the required key
  among the matches and unlocks the chest.
\<close>

theorem cmdUnlock_two_keys_counterexample:
  "map item_id (matchingKeys demoGame keyStore ''key'') = [''iron-key'', ''rusty-key''] \<and>
   map_option item_id (findUniqueItemAtLocation demoGame keyStore ''chest'') = Some ''treasure-chest'' \<and>
   map_option requiredKey (findUniqueItemAtLocation demoGame keyStore ''chest'') = Some (Some ''iron-key'') \<and>
   isContainerLocked keyStore ''treasure-chest'' \<and>
   fst (cmdUnlock demoGame keyStore (Some ''chest'') (Some ''key'') (Some ''with'')) =
     Inr ''You unlock the Treasure Chest with the Iron Key.'' \<and>
   \<not> isContainerLocked (snd (cmdUnlock demoGame keyStore (Some ''chest'') (Some ''key'') (Some ''with'')))
       ''treasure-chest''"
  by code_simp

section \<open>Verb resolution (C3)\<close>

text \<open>No phrase of the synonym table has more than one blank.\<close>

lemma synonyms_spaces:
  "list_all (\<lambda>w. spaces w < 2) (concat (map snd verbSynonyms))"
  by (simp add: verbSynonyms_def spaces_def)

lemma normalizeVerb_spaces:
  assumes "normalizeVerb w = Some v"
  shows "spaces w < 2"
proof -
  from assms obtain entry where "find (\<lambda>entry. w \<in> set (snd entry)) verbSynonyms = Some entry"
    by (auto simp: normalizeVerb_def)
  then obtain i where "i < length verbSynonyms" "entry = verbSynonyms ! i" "w \<in> set (snd entry)"
    by (auto simp: find_Some_iff)
  then have "entry \<in> set verbSynonyms" "w \<in> set (snd entry)"
    by simp_all
  then have "w \<in> set (concat (map snd verbSynonyms))" by auto
  with synonyms_spaces show ?thesis by (auto simp: list_all_iff)
qed

lemma normalizeVerb_three: "normalizeVerb (a @ CHR '' '' # b @ CHR '' '' # c) = None"
proof (cases "normalizeVerb (a @ CHR '' '' # b @ CHR '' '' # c)")
  case None then show ?thesis .
next
  case (Some v)
  from normalizeVerb_spaces[OF this] show ?thesis by (simp add: spaces_def)
qed

text \<open>
  Claim C3. Verb resolution gives what looking up the three-token phrase, then the
  two-token phrase, then the first token gives, so the longest matching phrase wins: a
  two-word synonym is taken whatever the first token alone would resolve to. When no
  lookup succeeds, parsing fails with the unknown-word error that names the first token.
  (The code looks the two-token phrase up before the three-token one; no phrase of the
  table has three words, so the outcome is the same.)
\<close>

theorem matchVerb_longest:
  "matchVerb tokens = matchVerbLongest tokens \<and>
   (length tokens \<ge> 2 \<and> normalizeVerb (tokens ! 0 @ '' '' @ tokens ! 1) = Some v
      \<longrightarrow> fst (matchVerb tokens) = Some v \<and> snd (matchVerb tokens) = drop 2 tokens) \<and>
   (tokens \<noteq> [] \<and> fst (matchVerb tokens) = None
      \<longrightarrow> matchPattern numTok tokens =
            Inl (''I don't know the word '' @ [CHR 0x22] @ hd tokens @ [CHR 0x22] @ ''.''))"
proof (intro conjI impI)
  show "matchVerb tokens = matchVerbLongest tokens"
    by (auto simp: matchVerb_def matchVerbLongest_def normalizeVerb_three Let_def split: option.splits)
next
  assume "length tokens \<ge> 2 \<and> normalizeVerb (tokens ! 0 @ '' '' @ tokens ! 1) = Some v"
  then show "fst (matchVerb tokens) = Some v" "snd (matchVerb tokens) = drop 2 tokens"
    by (auto simp: matchVerb_def Let_def)
next
  assume "tokens \<noteq> [] \<and> fst (matchVerb tokens) = None"
  then show "matchPattern numTok tokens =
            Inl (''I don't know the word '' @ [CHR 0x22] @ hd tokens @ [CHR 0x22] @ ''.'')"
    by (cases "matchVerb tokens") (auto simp: matchPattern_def hd_conv_nth)
qed

theorem matchVerb_longest_witness:
  "normalizeVerb ''pick'' = Some ''TAKE'' \<and> normalizeVerb ''look'' = Some ''LOOK'' \<and>
   matchVerb (tokenize ''Pick up the rusty key'') = (Some ''TAKE'', [''rusty'', ''key'']) \<and>
   matchVerb (tokenize ''look at chest'') = (Some ''EXAMINE'', [''chest'']) \<and>
   matchVerbLongest (tokenize ''look at chest'') = (Some ''EXAMINE'', [''chest'']) \<and>
   matchPattern decimalToken (tokenize ''xyzzy the chest'') = Inl ''I don't know the word \"xyzzy\".''"
  using matchVerb_longest [of "tokenize ''Pick up the rusty key''" "''TAKE''" decimalToken]
        matchVerb_longest [of "tokenize ''look at chest''" "''EXAMINE''" decimalToken]
        matchVerb_longest [of "tokenize ''xyzzy the chest''" "''X''" decimalToken]
  by code_simp

section \<open>Turn consumption and parse rejection (C6)\<close>

text \<open>
  Claim C6. Whatever the handlers do: an input that is empty after trimming is answered
  with the prompt text, an input that the parser rejects (no tokens left, or an
  unrecognized verb) is answered with the parser's error text, both with consumes-turn
  false and the store untouched; and for every input that parses, a returned result has
  consumes-turn false exactly when the canonical verb is LOOK, INVENTORY, EXAMINE, QUEST
  or QUESTS.
\<close>

theorem parseCommand_consumesTurn:
  "(trim input = [] \<longrightarrow>
      parseCommand g others numTok input s =
        (Inr \<lparr>response = ''Please enter a command.'', consumesTurn = False\<rparr>, s)) \<and>
   (trim input \<noteq> [] \<and> matchPattern numTok (tokenize (trim input)) = Inl err \<longrightarrow>
      parseCommand g others numTok input s = (Inr \<lparr>response = err, consumesTurn = False\<rparr>, s)) \<and>
   (trim input \<noteq> [] \<and> matchPattern numTok (tokenize (trim input)) = Inr parsed \<and>
    parseCommand g others numTok input s = (Inr r, s') \<longrightarrow>
      consumesTurn r =
        (verb parsed \<notin> set [''LOOK'', ''INVENTORY'', ''EXAMINE'', ''QUEST'', ''QUESTS'']))"
proof (intro conjI impI)
  assume "trim input = []"
  then show "parseCommand g others numTok input s =
        (Inr \<lparr>response = ''Please enter a command.'', consumesTurn = False\<rparr>, s)"
    by (simp add: parseCommand_def)
next
  assume "trim input \<noteq> [] \<and> matchPattern numTok (tokenize (trim input)) = Inl err"
  then show "parseCommand g others numTok input s = (Inr \<lparr>response = err, consumesTurn = False\<rparr>, s)"
    by (auto simp: parseCommand_def Let_def matchPattern_def)
next
  assume a: "trim input \<noteq> [] \<and> matchPattern numTok (tokenize (trim input)) = Inr parsed \<and>
    parseCommand g others numTok input s = (Inr r, s')"
  then have ne: "tokenize (trim input) \<noteq> []" by (auto simp: matchPattern_def)
  define parsed' where "parsed' = (if verb parsed = ''QUEST'' \<or> verb parsed = ''QUESTS''
                 then (case questMatch (trim input) of
                         None \<Rightarrow> parsed
                       | Some d \<Rightarrow> parsed\<lparr>directObject := Some d\<rparr>)
                 else parsed)"
  have v: "verb parsed' = verb parsed" by (simp add: parsed'_def split: option.splits)
  from a have a1: "trim input \<noteq> []"
    and a2: "matchPattern numTok (tokenize (trim input)) = Inr parsed"
    and a3: "parseCommand g others numTok input s = (Inr r, s')" by simp_all
  from a3 have "executeCommand g others parsed' s = (Inr r, s')"
    unfolding parseCommand_def Let_def parsed'_def by (simp add: a1 a2 ne)
  then have "consumesTurn r = (verb parsed' \<notin> set nonTurnCommands)"
    by (auto simp: executeCommand_def Let_def split: prod.splits sum.splits)
  then show "consumesTurn r =
        (verb parsed \<notin> set [''LOOK'', ''INVENTORY'', ''EXAMINE'', ''QUEST'', ''QUESTS''])"
    by (simp add: v nonTurnCommands_def)
qed

text \<open>
  Blank input, an unknown word, LOOK, and a TAKE that fails (nine coins asked of a chest
  that holds five) and still consumes the turn.
\<close>

theorem parseCommand_consumesTurn_witness:
  "parseCommand demoGame demoOthers decimalToken ''   '' demoStore =
     (Inr \<lparr>response = ''Please enter a command.'', consumesTurn = False\<rparr>, demoStore) \<and>
   parseCommand demoGame demoOthers decimalToken ''xyzzy the chest'' demoStore =
     (Inr \<lparr>response = ''I don't know the word \"xyzzy\".'', consumesTurn = False\<rparr>, demoStore) \<and>
   parseCommand demoGame demoOthers decimalToken ''look'' demoStore =
     (Inr \<lparr>response = ''[LOOK]'', consumesTurn = False\<rparr>, demoStore) \<and>
   parseCommand demoGame demoOthers decimalToken ''take 9 gold coin from chest'' demoStore =
     (Inr \<lparr>response = ''There are only 5 Gold Coins in the Treasure Chest.'', consumesTurn = True\<rparr>,
      demoStore)"
  using parseCommand_consumesTurn [of "''   ''" demoGame demoOthers decimalToken demoStore]
        parseCommand_consumesTurn [of "''xyzzy the chest''" demoGame demoOthers decimalToken demoStore
           "''I don't know the word \"xyzzy\".''"]
        parseCommand_consumesTurn [where input = "''look''" and g = demoGame and others = demoOthers
           and numTok = decimalToken and s = demoStore
           and parsed = "parseObjects decimalToken ''LOOK'' []"
           and r = "\<lparr>response = ''[LOOK]'', consumesTurn = False\<rparr>" and s' = demoStore]
        parseCommand_consumesTurn [where input = "''take 9 gold coin from chest''" and g = demoGame
           and others = demoOthers and numTok = decimalToken and s = demoStore
           and parsed = "parseObjects decimalToken ''TAKE'' [''9'', ''gold'', ''coin'', ''from'', ''chest'']"
           and r = "\<lparr>response = ''There are only 5 Gold Coins in the Treasure Chest.'',
                     consumesTurn = True\<rparr>" and s' = demoStore]
  by code_simp

section \<open>Quest completion (C4)\<close>

lemma flags_rewards [simp]: "flags (foldl grantReward s0 xs) = flags s0"
  by (induction xs arbitrary: s0) (simp_all add: grantReward_def)

lemma questStates_rewards [simp]: "questStates (foldl grantReward s0 xs) = questStates s0"
  by (induction xs arbitrary: s0) (simp_all add: grantReward_def)

lemma flags_addScore [simp]: "flags (addScore s n p) = flags s"
  by (simp add: addScore_def Let_def split: option.splits)

lemma flags_checkQuest [simp]: "flags (snd (checkQuest acc x)) = flags (snd acc)"
  by (simp add: checkQuest_def Let_def setQuestState_def)

lemma questStates_addScore [simp]: "questStates (addScore s n p) = questStates s"
  by (simp add: addScore_def Let_def split: option.splits)

lemma getQuestState_checkQuest_other:
  "quest_id x \<noteq> k \<Longrightarrow> getQuestState (snd (checkQuest acc x)) k = getQuestState (snd acc) k"
  by (simp add: checkQuest_def Let_def getQuestState_def setQuestState_def AList.update_conv')

lemma flags_foldl_checkQuest [simp]: "flags (snd (foldl checkQuest acc xs)) = flags (snd acc)"
  by (induction xs arbitrary: acc) simp_all

lemma getQuestState_foldl_other:
  "k \<notin> quest_id ` set xs \<Longrightarrow> getQuestState (snd (foldl checkQuest acc xs)) k = getQuestState (snd acc) k"
  by (induction xs arbitrary: acc) (auto simp: getQuestState_checkQuest_other)

lemma objectiveDone_flags:
  "flags s' = flags s \<Longrightarrow> objectiveDone s' q obj = objectiveDone s q obj"
  by (simp add: objectiveDone_def getFlag_def)

lemma allRequiredSet_flags: "flags s' = flags s \<Longrightarrow> allRequiredSet s' q = allRequiredSet s q"
  by (simp add: allRequiredSet_def objectiveDone_def getFlag_def)

lemma isComplete_objectives:
  assumes "completionCheck q = None" "objectives q \<noteq> []" "requireAllObjectives q"
  shows "isComplete q s = (getQuestState s (quest_id q) = Some ''active'' \<and> allRequiredSet s q)"
proof -
  have "list_all (\<lambda>obj. \<not> required obj \<or> objectiveDone s q obj) (objectives q) = allRequiredSet s q"
    by (auto simp: allRequiredSet_def list_all_iff)
  with assms show ?thesis by (simp add: isComplete_def)
qed

lemma getQuestState_checkQuest_self:
  assumes "completionCheck q = None" "objectives q \<noteq> []" "requireAllObjectives q"
  shows "getQuestState (snd (checkQuest acc q)) (quest_id q) =
     (if getQuestState (snd acc) (quest_id q) = Some ''active'' \<and> allRequiredSet (snd acc) q
      then Some ''completed'' else getQuestState (snd acc) (quest_id q))"
  using assms
  by (simp add: checkQuest_def Let_def isComplete_objectives)
     (simp add: getQuestState_def setQuestState_def AList.update_conv' js_or_def truthyS_def)

text \<open>
  Claim C4, as amended. For a quest of a game with pairwise different quest ids that
  has \<open>requireAllObjectives\<close> true, no custom completion check and at least one
  objective: the per-turn check moves it to \<open>completed\<close> exactly when it is \<open>active\<close>
  and the flag of every required objective is set; otherwise its state stays what it
  was, so an active quest with an unset required flag stays active and a quest that is
  not active is never completed.
\<close>

theorem checkQuestProgress_all_required:
  assumes "q \<in> set (quests g)" and "distinct (map quest_id (quests g))"
    and "requireAllObjectives q" and "completionCheck q = None" and "objectives q \<noteq> []"
  shows "getQuestState (snd (checkQuestProgress g s)) (quest_id q) =
           (if getQuestState s (quest_id q) = Some ''active'' \<and> allRequiredSet s q
            then Some ''completed'' else getQuestState s (quest_id q))"
proof -
  from assms(1) obtain pre post where sp: "quests g = pre @ q # post"
    by (auto simp: in_set_conv_decomp)
  with assms(2) have d1: "quest_id q \<notin> quest_id ` set pre" and d2: "quest_id q \<notin> quest_id ` set post"
    by auto
  let ?a = "foldl checkQuest ([], s) pre"
  have f: "flags (snd ?a) = flags s" by simp
  have st: "getQuestState (snd ?a) (quest_id q) = getQuestState s (quest_id q)"
    using getQuestState_foldl_other[OF d1, of "([], s)"] by simp
  have "getQuestState (snd (checkQuestProgress g s)) (quest_id q)
        = getQuestState (snd (foldl checkQuest (checkQuest ?a q) post)) (quest_id q)"
    by (simp add: checkQuestProgress_def Let_def sp)
  also have "\<dots> = getQuestState (snd (checkQuest ?a q)) (quest_id q)"
    by (rule getQuestState_foldl_other[OF d2])
  also have "\<dots> = (if getQuestState (snd ?a) (quest_id q) = Some ''active'' \<and> allRequiredSet (snd ?a) q
      then Some ''completed'' else getQuestState (snd ?a) (quest_id q))"
    using assms(3,4,5) by (simp add: getQuestState_checkQuest_self)
  finally show ?thesis by (simp add: st allRequiredSet_flags[OF f])
qed

text \<open>
  Two required objectives: with one flag set the quest stays active, with both it is
  completed; an inactive quest whose flag is set stays inactive.
\<close>

theorem checkQuestProgress_all_required_witness:
  "gatherQuest \<in> set (quests questGame) \<and> distinct (map quest_id (quests questGame)) \<and>
   requireAllObjectives gatherQuest \<and> completionCheck gatherQuest = None \<and>
   objectives gatherQuest \<noteq> [] \<and>
   getQuestState
     (snd (checkQuestProgress questGame
       (questStore [(''quest-gather-objective-iron'', JBool True)]))) ''gather'' = Some ''active'' \<and>
   getQuestState
     (snd (checkQuestProgress questGame
       (questStore [(''quest-gather-objective-iron'', JBool True),
                    (''quest-gather-objective-rusty'', JBool True)]))) ''gather'' = Some ''completed'' \<and>
   getQuestState
     (snd (checkQuestProgress questGame
       (questStore [(''quest-later-objective-step'', JBool True)]))) ''later'' = Some ''inactive''"
proof -
  have hyps: "gatherQuest \<in> set (quests questGame)" "laterQuest \<in> set (quests questGame)"
    "distinct (map quest_id (quests questGame))"
    "requireAllObjectives gatherQuest" "completionCheck gatherQuest = None"
    "objectives gatherQuest \<noteq> []"
    "requireAllObjectives laterQuest" "completionCheck laterQuest = None"
    "objectives laterQuest \<noteq> []"
    by (simp_all add: questGame_def gatherQuest_def idleQuest_def customQuest_def laterQuest_def
          mkQuest_def)
  have before:
    "getQuestState (questStore [(''quest-gather-objective-iron'', JBool True)]) ''gather''
       = Some ''active''"
    "\<not> allRequiredSet (questStore [(''quest-gather-objective-iron'', JBool True)]) gatherQuest"
    "getQuestState (questStore [(''quest-gather-objective-iron'', JBool True),
                    (''quest-gather-objective-rusty'', JBool True)]) ''gather'' = Some ''active''"
    "allRequiredSet (questStore [(''quest-gather-objective-iron'', JBool True),
                    (''quest-gather-objective-rusty'', JBool True)]) gatherQuest"
    "getQuestState (questStore [(''quest-later-objective-step'', JBool True)]) ''later''
       = Some ''inactive''"
    "quest_id gatherQuest = ''gather''" "quest_id laterQuest = ''later''"
    by code_simp+
  show ?thesis
    using checkQuestProgress_all_required [of gatherQuest questGame
            "questStore [(''quest-gather-objective-iron'', JBool True)]"]
          checkQuestProgress_all_required [of gatherQuest questGame
            "questStore [(''quest-gather-objective-iron'', JBool True),
                         (''quest-gather-objective-rusty'', JBool True)]"]
          checkQuestProgress_all_required [of laterQuest questGame
            "questStore [(''quest-later-objective-step'', JBool True)]"]
          hyps before
    by simp
qed

text \<open>
  The claim as stated, for every quest with \<open>requireAllObjectives\<close> true, fails on the
  guards of \<open>isComplete\<close>: an active quest without objectives has every required flag
  set (there is none) and stays active, and an active quest with a custom completion
  check is completed by that check although its required flag is not set.
\<close>

theorem checkQuestProgress_counterexample:
  "requireAllObjectives idleQuest \<and>
   getQuestState (questStore []) ''idle'' = Some ''active'' \<and>
   allRequiredSet (questStore []) idleQuest \<and>
   getQuestState (snd (checkQuestProgress questGame (questStore []))) ''idle'' = Some ''active'' \<and>
   requireAllObjectives customQuest \<and>
   getQuestState (questStore []) ''custom'' = Some ''active'' \<and>
   \<not> allRequiredSet (questStore []) customQuest \<and>
   getQuestState (snd (checkQuestProgress questGame (questStore []))) ''custom'' = Some ''completed''"
  by code_simp

section \<open>Containers without a recorded state (C9)\<close>

lemma getContainerState_recordOpen:
  "map_of (containerStates s) c = None \<Longrightarrow> getContainerState (recordOpen s c) c' = getContainerState s c'"
  by (simp add: getContainerState_def recordOpen_def AList.update_conv')

lemma recordOpen_frame [simp]:
  "getCurrentLocation (recordOpen s c) = getCurrentLocation s"
  "getUniqueItemsAtLocation (recordOpen s c) l = getUniqueItemsAtLocation s l"
  "getGenericItemStacksAt (recordOpen s c) k p = getGenericItemStacksAt s k p"
  "findUniqueItemAtLocation g (recordOpen s c) n = findUniqueItemAtLocation g s n"
  by (simp_all add: recordOpen_def getCurrentLocation_def getActivePlayer_def
      getUniqueItemsAtLocation_def getGenericItemStacksAt_def resolveContainer_def inventoryKey_def
      findUniqueItemAtLocation_def)

lemma recordOpen_observers:
  assumes "map_of (containerStates s) c = None"
  shows "isContainerLocked (recordOpen s c) c' = isContainerLocked s c'"
    and "isContainerOpen (recordOpen s c) c' = isContainerOpen s c'"
  using getContainerState_recordOpen[OF assms] by (simp_all add: isContainerLocked_def isContainerOpen_def)

lemma closeContainer_recordOpen:
  "map_of (containerStates s) c = None \<Longrightarrow> closeContainer (recordOpen s c) c = closeContainer s c"
  by (simp add: closeContainer_def recordOpen_def AList.update_conv' Let_def)

lemma transfer_recordOpen:
  "transferGenericItems (recordOpen s c) a b i q p =
     (fst (transferGenericItems s a b i q p), recordOpen (snd (transferGenericItems s a b i q p)) c)"
  by (auto simp: transferGenericItems_def removeGenericItems_def addGenericItems_def recordOpen_def Let_def
      resolveContainer_def inventoryKey_def split: option.splits prod.splits bool.splits)

lemma setFlag_recordOpen: "setFlag (recordOpen s c) k v = recordOpen (setFlag s k v) c"
  by (simp add: setFlag_def recordOpen_def)

lemma takeOut_recordOpen:
  "takeOut g (recordOpen s c) u item n =
     (fst (takeOut g s u item n), recordOpen (snd (takeOut g s u item n)) c)"
proof -
  obtain ok s1 where t:
    "transferGenericItems s (item_id u) ''inventory'' (generic_id item) n None = (ok, s1)"
    by force
  show ?thesis
    by (cases ok) (auto simp: takeOut_def transfer_recordOpen t setFlag_recordOpen)
qed

text \<open>
  Claim C9. A container id without an entry in \<open>containerStates\<close> is reported as
  unlocked and open. Consequently, for a command that names such a container, OPEN,
  CLOSE and TAKE-from-container answer and act as they do on the store in which the
  container is recorded as unlocked and open: OPEN finds it already open and changes
  nothing, CLOSE closes it, and TAKE is not refused.
\<close>

theorem uninitialized_container_open:
  assumes "map_of (containerStates s) c = None"
  shows "getContainerState s c = \<lparr>isLocked = False, isOpen = True\<rparr> \<and>
         \<not> isContainerLocked s c \<and> isContainerOpen s c \<and>
         (findUniqueItemAtLocation g s n = Some u \<and> item_id u = c \<and> isContainer u \<and> n \<noteq> [] \<longrightarrow>
            cmdOpen g s (Some n) = (fst (cmdOpen g (recordOpen s c) (Some n)), s) \<and>
            snd (cmdOpen g (recordOpen s c) (Some n)) = recordOpen s c \<and>
            cmdClose g s (Some n) = cmdClose g (recordOpen s c) (Some n) \<and>
            fst (cmdClose g s (Some n)) = Inr (''You close the '' @ item_name u @ ''.'') \<and>
            takeFromContainer g (recordOpen s c) obj n q =
              (fst (takeFromContainer g s obj n q),
               recordOpen (snd (takeFromContainer g s obj n q)) c))"
proof -
  have st: "getContainerState s c = \<lparr>isLocked = False, isOpen = True\<rparr>"
    using assms by (simp add: getContainerState_def)
  then have lo: "\<not> isContainerLocked s c" "isContainerOpen s c"
    by (simp_all add: isContainerLocked_def isContainerOpen_def)
  note ob = recordOpen_observers[OF assms]
  {
    assume f: "findUniqueItemAtLocation g s n = Some u" and c: "item_id u = c"
      and k: "isContainer u" and n: "n \<noteq> []"
    have o1: "cmdOpen g s (Some n) = (fst (cmdOpen g (recordOpen s c) (Some n)), s)"
      using f c k n lo by (simp add: cmdOpen_def truthyS_def tmpl_def ob Let_def)
    have o2: "snd (cmdOpen g (recordOpen s c) (Some n)) = recordOpen s c"
      using f c k n lo by (simp add: cmdOpen_def truthyS_def tmpl_def ob Let_def)
    have c1: "cmdClose g s (Some n) = cmdClose g (recordOpen s c) (Some n)"
      using f c k n lo by (simp add: cmdClose_def truthyS_def tmpl_def ob closeContainer_recordOpen[OF assms])
    have c2: "fst (cmdClose g s (Some n)) = Inr (''You close the '' @ item_name u @ ''.'')"
      using f c k n lo by (simp add: cmdClose_def truthyS_def tmpl_def)
    have t: "takeFromContainer g (recordOpen s c) obj n q =
              (fst (takeFromContainer g s obj n q),
               recordOpen (snd (takeFromContainer g s obj n q)) c)"
      using f c k lo
      by (simp add: takeFromContainer_def ob takeOut_recordOpen split: option.splits prod.splits qty.splits)
    note o1 o2 c1 c2 t
  }
  with st lo show ?thesis by blast
qed

text \<open>
  A store restored from a save without container states: the chest, locked in the game
  definition, is found already open.
\<close>

theorem uninitialized_container_open_witness:
  "map_of (containerStates oldSaveStore) ''treasure-chest'' = None \<and>
   map_option item_id (findUniqueItemAtLocation demoGame oldSaveStore ''chest'') = Some ''treasure-chest'' \<and>
   \<not> isContainerLocked oldSaveStore ''treasure-chest'' \<and>
   isContainerOpen oldSaveStore ''treasure-chest'' \<and>
   cmdOpen demoGame oldSaveStore (Some ''chest'') =
     (Inr (''The Treasure Chest is already open.'' @ newline @ ''Inside you see:'' @ newline @
           ''  5 Gold Coins'' @ newline @ ''  2 Gems''), oldSaveStore) \<and>
   cmdClose demoGame oldSaveStore (Some ''chest'') =
     (Inr ''You close the Treasure Chest.'',
      oldSaveStore\<lparr>containerStates := [(''treasure-chest'', \<lparr>isLocked = False, isOpen = False\<rparr>)]\<rparr>) \<and>
   fst (takeFromContainer demoGame oldSaveStore ''gem'' ''chest'' None) =
     Inr ''You take 2 Gems from the Treasure Chest.''"
proof -
  have f: "case findUniqueItemAtLocation demoGame oldSaveStore ''chest'' of
             None \<Rightarrow> False
           | Some u \<Rightarrow> item_id u = ''treasure-chest'' \<and> isContainer u"
    by code_simp
  then obtain u where u: "findUniqueItemAtLocation demoGame oldSaveStore ''chest'' = Some u"
      "item_id u = ''treasure-chest''" "isContainer u"
    by (auto split: option.splits)
  have n: "map_of (containerStates oldSaveStore) ''treasure-chest'' = None"
    by (simp add: oldSaveStore_def)
  have e: "cmdOpen demoGame oldSaveStore (Some ''chest'') =
     (Inr (''The Treasure Chest is already open.'' @ newline @ ''Inside you see:'' @ newline @
           ''  5 Gold Coins'' @ newline @ ''  2 Gems''), oldSaveStore)"
   "cmdClose demoGame oldSaveStore (Some ''chest'') =
     (Inr ''You close the Treasure Chest.'',
      oldSaveStore\<lparr>containerStates := [(''treasure-chest'', \<lparr>isLocked = False, isOpen = False\<rparr>)]\<rparr>)"
   "fst (takeFromContainer demoGame oldSaveStore ''gem'' ''chest'' None) =
     Inr ''You take 2 Gems from the Treasure Chest.''"
    by code_simp+
  show ?thesis
    using uninitialized_container_open [OF n, of demoGame "''chest''" u "''gem''" None] u e n
    by simp
qed

end
